theory Spec2Isabelle
  imports Complex_Main "HOL-Library.Sublist"
begin

section \<open>Carbon offset quality screener: scorer and red-flag detector\<close>

text \<open>
  A shallow embedding of \<^verbatim>\<open>src/scorer.py\<close> (class \<^verbatim>\<open>CarbonQualityScorer\<close>) and
  \<^verbatim>\<open>src/red_flags.py\<close> (class \<^verbatim>\<open>RedFlagDetector\<close>).

  Modelling conventions.
  \<^item> In the scorer Python floats are idealised as exact reals: every score is a
    \<open>real\<close>. \<^verbatim>\<open>round(x, n)\<close> rounds the exact value of its argument, ties to even,
    and its result stands for the double nearest to that decimal. In the flag summary,
    where the percentage in doubles and the exact percentage round to different
    decimals, the quotient and the product are rounded to binary64 as the machine does.
  \<^item> A pandas cell that may be null (\<^verbatim>\<open>NaN\<close>, \<^verbatim>\<open>None\<close>, \<^verbatim>\<open>NaT\<close>) is an
    \<open>option\<close>, \<open>None\<close> being the null; \<^verbatim>\<open>pd.isna\<close> is the test for \<open>None\<close>.
    The ledger columns \<^verbatim>\<open>total_issued\<close> and \<^verbatim>\<open>total_retired\<close> are plain reals: the
    loader fills their nulls with 0.
  \<^item> A timestamp is an integer number of nanoseconds since the epoch, so that
    \<^verbatim>\<open>Timedelta.days\<close> is a floor division.
  \<^item> A string is a list of code points below 256 (Latin-1), one \<open>char\<close> each;
    \<^verbatim>\<open>str.lower\<close> and \<^verbatim>\<open>str.strip\<close> act on those code points as Python does.
  \<^item> A column of strings has the object dtype, also when all its cells are null, so
    that the \<^verbatim>\<open>.str\<close> accessor of the detector applies to it.
  \<^item> A data frame is its list of column names together with its list of rows. A row
    is a record with one field per column the code reads, holding what \<^verbatim>\<open>row.get\<close>
    returns for it: the cell, and for a column that is not in the schema the default
    (\<open>None\<close>, and 0 for \<^verbatim>\<open>total_issued\<close> and \<^verbatim>\<open>total_retired\<close>). Code that
    indexes a column directly (\<^verbatim>\<open>df["c"]\<close>) consults the schema first.
  \<^item> The clock is an input: the reference date of the scorer and the expiry threshold
    of the detector (today plus twelve months) are parameters.
\<close>

subsection \<open>Errors\<close>

datatype error = KeyError string | ZeroDivisionError

subsection \<open>Strings\<close>

text \<open>
  \<^verbatim>\<open>str.lower\<close> on one code point: the letters A to Z, and the Latin-1 capitals
  \<open>0xC0\<close> to \<open>0xDE\<close> without the multiplication sign \<open>0xD7\<close>, move up by 32.
\<close>

definition upper_letters :: "char list" where
  "upper_letters =
     ''ABCDEFGHIJKLMNOPQRSTUVWXYZ'' @
       [CHR 0xC0, CHR 0xC1, CHR 0xC2, CHR 0xC3, CHR 0xC4, CHR 0xC5, CHR 0xC6, CHR 0xC7,
        CHR 0xC8, CHR 0xC9, CHR 0xCA, CHR 0xCB, CHR 0xCC, CHR 0xCD, CHR 0xCE, CHR 0xCF,
        CHR 0xD0, CHR 0xD1, CHR 0xD2, CHR 0xD3, CHR 0xD4, CHR 0xD5, CHR 0xD6, CHR 0xD8,
        CHR 0xD9, CHR 0xDA, CHR 0xDB, CHR 0xDC, CHR 0xDD, CHR 0xDE]"

definition lower_letters :: "char list" where
  "lower_letters =
     ''abcdefghijklmnopqrstuvwxyz'' @
       [CHR 0xE0, CHR 0xE1, CHR 0xE2, CHR 0xE3, CHR 0xE4, CHR 0xE5, CHR 0xE6, CHR 0xE7,
        CHR 0xE8, CHR 0xE9, CHR 0xEA, CHR 0xEB, CHR 0xEC, CHR 0xED, CHR 0xEE, CHR 0xEF,
        CHR 0xF0, CHR 0xF1, CHR 0xF2, CHR 0xF3, CHR 0xF4, CHR 0xF5, CHR 0xF6, CHR 0xF8,
        CHR 0xF9, CHR 0xFA, CHR 0xFB, CHR 0xFC, CHR 0xFD, CHR 0xFE]"

definition lower_char :: "char \<Rightarrow> char" where
  "lower_char c =
     (case map_of (zip upper_letters lower_letters) c of
        None \<Rightarrow> c
      | Some l \<Rightarrow> l)"

definition lower :: "string \<Rightarrow> string" where
  "lower s = map lower_char s"

text \<open>
  \<^verbatim>\<open>str.isspace\<close> on one code point: the space, \<open>0x09\<close> to \<open>0x0D\<close>, \<open>0x1C\<close> to
  \<open>0x1F\<close>, the next-line control \<open>0x85\<close> and the no-break space \<open>0xA0\<close>.
\<close>

definition isspace :: "char \<Rightarrow> bool" where
  "isspace c \<longleftrightarrow>
     c = CHR '' '' \<or> (9 \<le> (of_char c :: nat) \<and> (of_char c :: nat) \<le> 13)
     \<or> (28 \<le> (of_char c :: nat) \<and> (of_char c :: nat) \<le> 31)
     \<or> c = CHR 0x85 \<or> c = CHR 0xA0"

definition strip :: "string \<Rightarrow> string" where
  "strip s = rev (dropWhile isspace (rev (dropWhile isspace s)))"

text \<open>\<^verbatim>\<open>sub in s\<close>: \<open>sub\<close> occurs in \<open>s\<close> as a contiguous substring.\<close>

fun str_contains :: "string \<Rightarrow> string \<Rightarrow> bool" where
  "str_contains sub [] = (sub = [])"
| "str_contains sub (c # cs) = (prefix sub (c # cs) \<or> str_contains sub cs)"

subsection \<open>Rounding\<close>

text \<open>Round to the nearest integer, ties to even (\<^verbatim>\<open>rint\<close>).\<close>

definition rint :: "real \<Rightarrow> int" where
  "rint x =
     (let f = \<lfloor>x\<rfloor>; d = x - of_int f
      in if d < 1 / 2 then f
         else if 1 / 2 < d then f + 1
         else if even f then f else f + 1)"

text \<open>\<^verbatim>\<open>round(x, n)\<close> and \<^verbatim>\<open>Series.round(n)\<close>.\<close>

definition py_round :: "real \<Rightarrow> nat \<Rightarrow> real" where
  "py_round x n = of_int (rint (x * 10 ^ n)) / 10 ^ n"

subsection \<open>Binary floating point\<close>

text \<open>
  A non-negative double is a pair \<open>(m, e)\<close> of a mantissa below \<open>2 ^ 53\<close> (or equal
  to it, after rounding up) and an exponent, with the value \<open>m * 2 ^ e\<close>.
\<close>

type_synonym double = "nat \<times> int"

definition float_val :: "double \<Rightarrow> real" where
  "float_val f = (case f of (m, e) \<Rightarrow> real m * 2 ^ nat e / 2 ^ nat (- e))"

text \<open>The number of binary digits of a natural number.\<close>

fun bit_length :: "nat \<Rightarrow> nat" where
  "bit_length n = (if n = 0 then 0 else Suc (bit_length (n div 2)))"

declare bit_length.simps [simp del]

text \<open>The quotient of two natural numbers, rounded to the nearest, ties to even.\<close>

definition rdiv :: "nat \<Rightarrow> nat \<Rightarrow> nat" where
  "rdiv a b =
     (let q = a div b; r = a mod b
      in if 2 * r < b then q
         else if b < 2 * r then q + 1
         else if even q then q else q + 1)"

text \<open>
  The double nearest to the fraction \<open>a / b\<close>, ties to even: \<open>l\<close> is the binary
  logarithm of the fraction, rounded down, and the exponent leaves 53 binary digits
  to the mantissa, or fewer at the smallest exponent \<open>- 1074\<close>. There is no overflow
  branch: the only fractions taken are a count over a number of records and 100 times
  such a quotient.
\<close>

definition nearest_double :: "nat \<Rightarrow> nat \<Rightarrow> double" where
  "nearest_double a b =
     (if a = 0 then (0, 0)
      else
        (let k = int (bit_length a) - int (bit_length b);
             l = (if b * 2 ^ nat k \<le> a * 2 ^ nat (- k) then k else k - 1);
             e = max (- 1074) (l - 52)
         in (rdiv (a * 2 ^ nat (- e)) (b * 2 ^ nat e), e)))"

text \<open>\<^verbatim>\<open>a / b\<close> on two non-negative Python integers, \<open>b\<close> not 0.\<close>

definition int_truediv :: "nat \<Rightarrow> nat \<Rightarrow> double" where
  "int_truediv a b = nearest_double a b"

text \<open>
  \<^verbatim>\<open>f * n\<close> on a double and a non-negative Python integer that is a double itself:
  the exact product, rounded once.
\<close>

definition float_mul_int :: "double \<Rightarrow> nat \<Rightarrow> double" where
  "float_mul_int f n =
     (case f of (m, e) \<Rightarrow> nearest_double (m * n * 2 ^ nat e) (2 ^ nat (- e)))"

subsection \<open>Data model\<close>

type_synonym timestamp = int

definition ns_per_day :: int where
  "ns_per_day = 86400000000000"

text \<open>\<^verbatim>\<open>(a - b).days\<close>\<close>

definition days :: "timestamp \<Rightarrow> timestamp \<Rightarrow> int" where
  "days a b = (a - b) div ns_per_day"

record project =
  project_type :: "string option"
  country :: "string option"
  registration_date :: "timestamp option"
  crediting_period_start :: "timestamp option"
  crediting_period_end :: "timestamp option"
  total_issued :: real
  total_retired :: real
  total_buffer_pool :: "real option"
  estimated_annual_reductions :: "real option"
  proponent :: "string option"
  region :: "string option"

record scored = project +
  vintage_score_col :: real
  retirement_ratio_score_col :: real
  project_type_score_col :: real
  transparency_score_col :: real
  additionality_score_col :: real
  governance_score_col :: real
  cqi :: real
  quality_tier :: "string option"

record with_flags = scored +
  flags :: "string list"

record flagged = with_flags +
  flag_count :: nat
  max_severity_col :: string

record 'r dataframe =
  columns :: "string list"
  rows :: "'r list"

text \<open>\<^verbatim>\<open>df[name] = ...\<close> on the schema: a new column is appended, an old one is kept.\<close>

definition set_column :: "string \<Rightarrow> string list \<Rightarrow> string list" where
  "set_column name cols = (if name \<in> set cols then cols else cols @ [name])"

subsection \<open>Static tables of the scorer\<close>

definition HIGH_RISK_TYPES :: "string list" where
  "HIGH_RISK_TYPES =
     [''REDD+'', ''Avoided Deforestation'',
      ''Avoided Unplanned Deforestation and Degradation'']"

definition MEDIUM_RISK_TYPES :: "string list" where
  "MEDIUM_RISK_TYPES =
     [''Improved Forest Management'', ''Agriculture Forestry and Other Land Use'',
      ''Afforestation/Reforestation'']"

definition COUNTRY_GOVERNANCE_SCORE :: "(string \<times> real) list" where
  "COUNTRY_GOVERNANCE_SCORE =
     [(''Brazil'', 0.55), (''Indonesia'', 0.50), (''Peru'', 0.60), (''Colombia'', 0.55),
      (''Mexico'', 0.60), (''Kenya'', 0.50), (''Tanzania'', 0.45), (''Cambodia'', 0.40),
      (''India'', 0.55), (''China'', 0.50), (''Vietnam'', 0.45), (''Madagascar'', 0.35),
      (''Democratic Republic of the Congo'', 0.25), (''Uganda'', 0.40),
      (''Chile'', 0.75), (''Costa Rica'', 0.75), (''Uruguay'', 0.75),
      (''Ghana'', 0.55), (''Senegal'', 0.55), (''Rwanda'', 0.60),
      (''United States'', 0.85), (''Canada'', 0.85), (''Australia'', 0.85),
      (''Germany'', 0.90), (''Sweden'', 0.90)]"

definition DEFAULT_GOVERNANCE_SCORE :: real where
  "DEFAULT_GOVERNANCE_SCORE = 0.50"

subsection \<open>Dimension scoring methods\<close>

definition age_years :: "timestamp \<Rightarrow> timestamp \<Rightarrow> real" where
  "age_years reference_date reg_date = real_of_int (days reference_date reg_date) / 365.25"

definition vintage_score :: "'a project_scheme \<Rightarrow> timestamp \<Rightarrow> real" where
  "vintage_score row reference_date =
     (case registration_date row of
        None \<Rightarrow> 50
      | Some reg_date \<Rightarrow>
          (let age = age_years reference_date reg_date
           in if age \<le> 3 then 100
              else if age \<le> 8 then 100 - (age - 3) * 6
              else if age \<le> 12 then 70 - (age - 8) * 10
              else max 10 (30 - (age - 12) * 5)))"

definition retirement_ratio_score :: "'a project_scheme \<Rightarrow> real" where
  "retirement_ratio_score row =
     (let issued = total_issued row; retired = total_retired row
      in if issued \<le> 0 then 50
         else
           (let ratio = retired / issued
            in if ratio \<ge> 0.80 then 100
               else if ratio \<ge> 0.50 then 60 + (ratio - 0.50) * 200
               else if ratio \<ge> 0.20 then 30 + (ratio - 0.20) * 100
               else if ratio \<ge> 0.05 then 10 + (ratio - 0.05) * 133
               else max 0 (ratio * 200)))"

definition project_type_score :: "string option \<Rightarrow> real" where
  "project_type_score project_type_val =
     (case project_type_val of
        None \<Rightarrow> 50
      | Some s \<Rightarrow>
          (let pt = strip s
           in if list_ex (\<lambda>ht. str_contains (lower ht) (lower pt)) HIGH_RISK_TYPES then 30
              else if list_ex (\<lambda>mt. str_contains (lower mt) (lower pt)) MEDIUM_RISK_TYPES then 60
              else 85))"

text \<open>
  One summand of the transparency count: the field is present, not null, and not
  equal to 0. A string or a date never equals 0.
\<close>

definition populated_obj :: "'a option \<Rightarrow> nat" where
  "populated_obj v = (case v of None \<Rightarrow> 0 | Some _ \<Rightarrow> 1)"

definition populated_num :: "real option \<Rightarrow> nat" where
  "populated_num v = (case v of None \<Rightarrow> 0 | Some x \<Rightarrow> if x \<noteq> 0 then 1 else 0)"

definition transparency_score :: "'a project_scheme \<Rightarrow> real" where
  "transparency_score row =
     (let populated =
            populated_obj (proponent row) + populated_obj (region row)
            + populated_obj (crediting_period_start row)
            + populated_obj (crediting_period_end row)
            + populated_num (estimated_annual_reductions row)
            + populated_num (total_buffer_pool row)
      in py_round ((real populated / 6) * 100) 1)"

definition additionality_score :: "'a project_scheme \<Rightarrow> timestamp \<Rightarrow> real" where
  "additionality_score row reference_date =
     (case (registration_date row, crediting_period_start row) of
        (Some reg_date, Some cp_start) \<Rightarrow>
          (let lag_years = real_of_int (days reg_date cp_start) / 365.25
           in if lag_years \<le> 1 then 90
              else if lag_years \<le> 3 then 75
              else if lag_years \<le> 6 then 55
              else if lag_years \<le> 10 then 35
              else 15)
      | _ \<Rightarrow> 50)"

definition governance_score :: "string option \<Rightarrow> real" where
  "governance_score country_val =
     (case country_val of
        None \<Rightarrow> DEFAULT_GOVERNANCE_SCORE * 100
      | Some c \<Rightarrow>
          (let score = (case map_of COUNTRY_GOVERNANCE_SCORE (strip c) of
                          None \<Rightarrow> DEFAULT_GOVERNANCE_SCORE
                        | Some g \<Rightarrow> g)
           in py_round (score * 100) 1))"

subsection \<open>Composite index and quality tier\<close>

text \<open>
  \<^verbatim>\<open>sum(df[dim] * weight for dim, weight in WEIGHTS.items()).round(2)\<close>, the weights in
  the order of the dictionary.
\<close>

definition WEIGHTS :: "(string \<times> real) list" where
  "WEIGHTS =
     [(''vintage_score'', 0.20), (''retirement_ratio_score'', 0.20),
      (''project_type_score'', 0.20), (''transparency_score'', 0.15),
      (''additionality_score'', 0.15), (''governance_score'', 0.10)]"

definition weighted_sum :: "(string \<Rightarrow> real) \<Rightarrow> real" where
  "weighted_sum col =
     py_round (foldl (\<lambda>acc (dim, weight). acc + col dim * weight) 0 WEIGHTS) 2"

text \<open>
  \<^verbatim>\<open>pd.cut(cqi, bins=[0, 40, 55, 70, 85, 100], labels=..., include_lowest=True)\<close>:
  right-closed bins, the first one also closed on the left, null outside.
\<close>

definition cut_tier :: "real \<Rightarrow> string option" where
  "cut_tier x =
     (if x < 0 then None
      else if x \<le> 40 then Some ''Very Low''
      else if x \<le> 55 then Some ''Low''
      else if x \<le> 70 then Some ''Medium''
      else if x \<le> 85 then Some ''High''
      else if x \<le> 100 then Some ''Very High''
      else None)"

definition score_row :: "timestamp \<Rightarrow> project \<Rightarrow> scored" where
  "score_row reference_date row =
     (let v = vintage_score row reference_date;
          r = retirement_ratio_score row;
          p = project_type_score (project_type row);
          t = transparency_score row;
          a = additionality_score row reference_date;
          g = governance_score (country row);
          c = weighted_sum
                (\<lambda>dim. if dim = ''vintage_score'' then v
                       else if dim = ''retirement_ratio_score'' then r
                       else if dim = ''project_type_score'' then p
                       else if dim = ''transparency_score'' then t
                       else if dim = ''additionality_score'' then a
                       else g)
      in \<lparr>project_type = project_type row, country = country row,
          registration_date = registration_date row,
          crediting_period_start = crediting_period_start row,
          crediting_period_end = crediting_period_end row,
          total_issued = total_issued row, total_retired = total_retired row,
          total_buffer_pool = total_buffer_pool row,
          estimated_annual_reductions = estimated_annual_reductions row,
          proponent = proponent row, region = region row,
          vintage_score_col = v, retirement_ratio_score_col = r,
          project_type_score_col = p, transparency_score_col = t,
          additionality_score_col = a, governance_score_col = g,
          cqi = c, quality_tier = cut_tier c\<rparr>)"

definition score_columns :: "string list" where
  "score_columns =
     [''vintage_score'', ''retirement_ratio_score'', ''project_type_score'',
      ''transparency_score'', ''additionality_score'', ''governance_score'',
      ''cqi'', ''quality_tier'']"

text \<open>
  \<^verbatim>\<open>score_all\<close> indexes \<^verbatim>\<open>df["project_type"]\<close> and \<^verbatim>\<open>df["country"]\<close> directly, which
  raises \<^verbatim>\<open>KeyError\<close> when the column is not in the schema; every other input is read
  through \<^verbatim>\<open>row.get\<close>.
\<close>

definition score_all :: "project dataframe \<Rightarrow> timestamp \<Rightarrow> error + scored dataframe" where
  "score_all df reference_date =
     (if ''project_type'' \<notin> set (columns df) then Inl (KeyError ''project_type'')
      else if ''country'' \<notin> set (columns df) then Inl (KeyError ''country'')
      else Inr \<lparr>columns = fold set_column score_columns (columns df),
                rows = map (score_row reference_date) (rows df)\<rparr>)"

section \<open>Red-flag detector\<close>

subsection \<open>Catalogue of defined flags\<close>

record RedFlag =
  code :: string
  label :: string
  description :: string
  severity :: string

text \<open>The dashes of the descriptions are written as ASCII hyphens.\<close>

definition FLAG_CATALOGUE :: "(string \<times> RedFlag) list" where
  "FLAG_CATALOGUE =
     [(''HIGH_VINTAGE'',
       \<lparr>code = ''HIGH_VINTAGE'', label = ''High Vintage Age'',
        description = ''Project registered more than 10 years ago. Credits may face market discount.'',
        severity = ''medium''\<rparr>),
      (''ZERO_RETIREMENTS'',
       \<lparr>code = ''ZERO_RETIREMENTS'', label = ''No Retirements Recorded'',
        description = ''Project has issued credits but shows zero retirements - potential demand signal.'',
        severity = ''high''\<rparr>),
      (''LOW_RETIREMENT_RATIO'',
       \<lparr>code = ''LOW_RETIREMENT_RATIO'', label = ''Low Retirement Rate (<10%)'',
        description = ''Less than 10% of issued credits have been retired.'',
        severity = ''medium''\<rparr>),
      (''REDD_CONTROVERSY'',
       \<lparr>code = ''REDD_CONTROVERSY'', label = ''REDD+ Controversy Risk'',
        description = ''REDD+ projects face scrutiny over permanence and additionality (CarbonPlan, Berkeley CPT).'',
        severity = ''high''\<rparr>),
      (''MASSIVE_ISSUANCE'',
       \<lparr>code = ''MASSIVE_ISSUANCE'', label = ''Unusually High Issuance Volume'',
        description = ''Total issuance exceeds 50M tCO2e - may indicate inflated baselines.'',
        severity = ''medium''\<rparr>),
      (''REGISTRATION_LAG'',
       \<lparr>code = ''REGISTRATION_LAG'', label = ''Long Registration Lag (>5 years)'',
        description = ''Significant delay between crediting period start and registration date.'',
        severity = ''medium''\<rparr>),
      (''WEAK_GOVERNANCE'',
       \<lparr>code = ''WEAK_GOVERNANCE'', label = ''Weak Host Country Governance'',
        description = ''Project located in a jurisdiction with low governance quality score (<0.45).'',
        severity = ''medium''\<rparr>),
      (''EXPIRED_CREDITING'',
       \<lparr>code = ''EXPIRED_CREDITING'', label = ''Expired or Expiring Crediting Period'',
        description = ''Crediting period has ended or ends within 12 months.'',
        severity = ''low''\<rparr>),
      (''INCOMPLETE_DATA'',
       \<lparr>code = ''INCOMPLETE_DATA'', label = ''Incomplete Public Documentation'',
        description = ''Transparency score below 40 - key project fields missing from registry.'',
        severity = ''low''\<rparr>)]"

definition GOVERNANCE_THRESHOLD :: real where
  "GOVERNANCE_THRESHOLD = 45.0"

subsection \<open>Individual flag rules\<close>

type_synonym 'a flag_frame = "'a with_flags_scheme dataframe"

definition add_flag ::
  "'a flag_frame \<Rightarrow> ('a with_flags_scheme \<Rightarrow> bool) \<Rightarrow> string \<Rightarrow> 'a flag_frame" where
  "add_flag df msk c =
     df\<lparr>rows :=
          map (\<lambda>x. if msk x
                   then x\<lparr>flags := (if c \<notin> set (flags x) then flags x @ [c] else flags x)\<rparr>
                   else x)
            (rows df)\<rparr>"

definition flag_high_vintage :: "'a flag_frame \<Rightarrow> 'a flag_frame" where
  "flag_high_vintage df =
     (if ''vintage_score'' \<in> set (columns df)
      then add_flag df (\<lambda>x. vintage_score_col x < 30) ''HIGH_VINTAGE''
      else df)"

definition flag_zero_retirements :: "'a flag_frame \<Rightarrow> 'a flag_frame" where
  "flag_zero_retirements df =
     (if ''total_retired'' \<in> set (columns df) \<and> ''total_issued'' \<in> set (columns df)
      then add_flag df (\<lambda>x. total_issued x > 0 \<and> total_retired x = 0) ''ZERO_RETIREMENTS''
      else df)"

text \<open>
  \<^verbatim>\<open>df["total_retired"] / df["total_issued"].replace(0, np.nan)\<close>: the ratio is null
  where nothing was issued, and a comparison with a null is false.
\<close>

definition retirement_ratio :: "'a project_scheme \<Rightarrow> real option" where
  "retirement_ratio x =
     (if total_issued x = 0 then None else Some (total_retired x / total_issued x))"

definition flag_low_retirement_ratio :: "'a flag_frame \<Rightarrow> 'a flag_frame" where
  "flag_low_retirement_ratio df =
     (if ''total_retired'' \<in> set (columns df) \<and> ''total_issued'' \<in> set (columns df)
      then add_flag df
             (\<lambda>x. (case retirement_ratio x of None \<Rightarrow> False | Some ratio \<Rightarrow> ratio < 0.10)
                  \<and> total_issued x > 0 \<and> total_retired x > 0)
             ''LOW_RETIREMENT_RATIO''
      else df)"

text \<open>\<^verbatim>\<open>Series.str.contains(pat, case=False, na=False)\<close> for a pattern of plain letters.\<close>

definition contains_nocase :: "string \<Rightarrow> string option \<Rightarrow> bool" where
  "contains_nocase pat v =
     (case v of None \<Rightarrow> False | Some s \<Rightarrow> str_contains (lower pat) (lower s))"

definition flag_redd_controversy :: "'a flag_frame \<Rightarrow> 'a flag_frame" where
  "flag_redd_controversy df =
     (if ''project_type'' \<in> set (columns df)
      then add_flag df (\<lambda>x. contains_nocase ''REDD'' (project_type x)) ''REDD_CONTROVERSY''
      else df)"

definition flag_massive_issuance :: "'a flag_frame \<Rightarrow> 'a flag_frame" where
  "flag_massive_issuance df =
     (if ''total_issued'' \<in> set (columns df)
      then add_flag df (\<lambda>x. total_issued x > 50000000) ''MASSIVE_ISSUANCE''
      else df)"

definition flag_registration_lag :: "'a flag_frame \<Rightarrow> 'a flag_frame" where
  "flag_registration_lag df =
     (if ''additionality_score'' \<in> set (columns df)
      then add_flag df (\<lambda>x. additionality_score_col x < 40) ''REGISTRATION_LAG''
      else df)"

definition flag_weak_governance :: "'a flag_frame \<Rightarrow> 'a flag_frame" where
  "flag_weak_governance df =
     (if ''governance_score'' \<in> set (columns df)
      then add_flag df (\<lambda>x. governance_score_col x < GOVERNANCE_THRESHOLD) ''WEAK_GOVERNANCE''
      else df)"

text \<open>\<open>threshold\<close> is \<^verbatim>\<open>pd.Timestamp.today() + pd.DateOffset(months=12)\<close>.\<close>

definition flag_expired_crediting :: "timestamp \<Rightarrow> 'a flag_frame \<Rightarrow> 'a flag_frame" where
  "flag_expired_crediting threshold df =
     (if ''crediting_period_end'' \<in> set (columns df)
      then add_flag df
             (\<lambda>x. (case crediting_period_end x of None \<Rightarrow> False | Some e \<Rightarrow> e \<le> threshold))
             ''EXPIRED_CREDITING''
      else df)"

definition flag_incomplete_data :: "'a flag_frame \<Rightarrow> 'a flag_frame" where
  "flag_incomplete_data df =
     (if ''transparency_score'' \<in> set (columns df)
      then add_flag df (\<lambda>x. transparency_score_col x < 40) ''INCOMPLETE_DATA''
      else df)"

subsection \<open>Worst severity\<close>

definition severity_order :: "string \<Rightarrow> nat" where
  "severity_order s =
     (case map_of [(''high'', 3), (''medium'', 2), (''low'', 1), (''none'', 0::nat)] s of
        None \<Rightarrow> 0
      | Some n \<Rightarrow> n)"

text \<open>\<^verbatim>\<open>max(x :: xs, key=key)\<close>: the first element whose key is greatest.\<close>

definition max_key :: "('a \<Rightarrow> nat) \<Rightarrow> 'a \<Rightarrow> 'a list \<Rightarrow> 'a" where
  "max_key key x xs = foldl (\<lambda>best y. if key best < key y then y else best) x xs"

definition max_severity :: "string list \<Rightarrow> string" where
  "max_severity fl =
     (if fl = [] then ''none''
      else
        (case List.map_filter (\<lambda>f. map_option severity (map_of FLAG_CATALOGUE f)) fl of
           [] \<Rightarrow> ''unknown''
         | s # ss \<Rightarrow> max_key severity_order s ss))"

subsection \<open>Detection\<close>

definition detect :: "timestamp \<Rightarrow> scored dataframe \<Rightarrow> flagged dataframe" where
  "detect threshold df0 =
     (let df = \<lparr>columns = set_column ''flags'' (columns df0),
                rows = map (\<lambda>x. scored.extend x (with_flags.fields [])) (rows df0)\<rparr>;
          df = flag_high_vintage df;
          df = flag_zero_retirements df;
          df = flag_low_retirement_ratio df;
          df = flag_redd_controversy df;
          df = flag_massive_issuance df;
          df = flag_registration_lag df;
          df = flag_weak_governance df;
          df = flag_expired_crediting threshold df;
          df = flag_incomplete_data df
      in \<lparr>columns = set_column ''max_severity'' (set_column ''flag_count'' (columns df)),
          rows = map (\<lambda>x. with_flags.extend x
                              (flagged.fields (length (flags x)) (max_severity (flags x))))
                   (rows df)\<rparr>)"

subsection \<open>Flag summary\<close>

text \<open>
  \<^verbatim>\<open>collections.Counter\<close> as an association list in order of first insertion;
  \<open>counter_add\<close> is one step of the counting loop.
\<close>

fun counter_add :: "'k \<Rightarrow> ('k \<times> nat) list \<Rightarrow> ('k \<times> nat) list" where
  "counter_add k [] = [(k, 1)]"
| "counter_add k ((k', n) # rest) =
     (if k = k' then (k', n + 1) # rest else (k', n) # counter_add k rest)"

definition Counter :: "'k list \<Rightarrow> ('k \<times> nat) list" where
  "Counter xs = foldl (\<lambda>acc k. counter_add k acc) [] xs"

text \<open>
  \<^verbatim>\<open>Counter.most_common()\<close>: a stable sort by descending count, so that codes with
  equal counts stay in order of first insertion.
\<close>

definition most_common :: "('k \<times> nat) list \<Rightarrow> ('k \<times> nat) list" where
  "most_common counts = sort_key (\<lambda>(k, n). - int n) counts"

record summary_row =
  flag_code :: string
  label_col :: string
  severity_col :: string
  project_count :: nat
  pct_of_portfolio :: real

text \<open>The body of the loop; the division raises when the frame has no rows.\<close>

definition summary_entry :: "nat \<Rightarrow> string \<times> nat \<Rightarrow> error + summary_row" where
  "summary_entry len_df kc =
     (case kc of (c, n) \<Rightarrow>
        if len_df = 0 then Inl ZeroDivisionError
        else
          (let cat = map_of FLAG_CATALOGUE c
           in Inr \<lparr>flag_code = c,
                   label_col = (case cat of None \<Rightarrow> c | Some e \<Rightarrow> label e),
                   severity_col = (case cat of None \<Rightarrow> ''unknown'' | Some e \<Rightarrow> severity e),
                   project_count = n,
                   pct_of_portfolio =
                     py_round (float_val (float_mul_int (int_truediv n len_df) 100)) 1\<rparr>))"

fun summary_loop :: "nat \<Rightarrow> (string \<times> nat) list \<Rightarrow> error + summary_row list" where
  "summary_loop len_df [] = Inr []"
| "summary_loop len_df (kc # rest) =
     (case summary_entry len_df kc of
        Inl e \<Rightarrow> Inl e
      | Inr entry \<Rightarrow>
          (case summary_loop len_df rest of
             Inl e \<Rightarrow> Inl e
           | Inr entries \<Rightarrow> Inr (entry # entries)))"

definition get_flag_summary :: "'a flag_frame \<Rightarrow> error + summary_row list" where
  "get_flag_summary df =
     (if ''flags'' \<notin> set (columns df) then Inl (KeyError ''flags'')
      else
        (let all_flags = concat (map flags (rows df));
             counts = Counter all_flags
         in summary_loop (length (rows df)) (most_common counts)))"

subsection \<open>The rules row by row\<close>

text \<open>
  The codes whose mask holds of one scored row, given the schema: the nine masks of
  the individual flag rules, each under the guard of its rule.
\<close>

definition triggered :: "timestamp \<Rightarrow> string list \<Rightarrow> scored \<Rightarrow> string set" where
  "triggered threshold cols y =
     (if ''vintage_score'' \<in> set cols \<and> vintage_score_col y < 30
      then {''HIGH_VINTAGE''} else {})
     \<union> (if (''total_retired'' \<in> set cols \<and> ''total_issued'' \<in> set cols)
             \<and> total_issued y > 0 \<and> total_retired y = 0
          then {''ZERO_RETIREMENTS''} else {})
     \<union> (if (''total_retired'' \<in> set cols \<and> ''total_issued'' \<in> set cols)
             \<and> (case retirement_ratio y of None \<Rightarrow> False | Some ratio \<Rightarrow> ratio < 0.10)
             \<and> total_issued y > 0 \<and> total_retired y > 0
          then {''LOW_RETIREMENT_RATIO''} else {})
     \<union> (if ''project_type'' \<in> set cols \<and> contains_nocase ''REDD'' (project_type y)
          then {''REDD_CONTROVERSY''} else {})
     \<union> (if ''total_issued'' \<in> set cols \<and> total_issued y > 50000000
          then {''MASSIVE_ISSUANCE''} else {})
     \<union> (if ''additionality_score'' \<in> set cols \<and> additionality_score_col y < 40
          then {''REGISTRATION_LAG''} else {})
     \<union> (if ''governance_score'' \<in> set cols \<and> governance_score_col y < GOVERNANCE_THRESHOLD
          then {''WEAK_GOVERNANCE''} else {})
     \<union> (if ''crediting_period_end'' \<in> set cols
             \<and> (case crediting_period_end y of None \<Rightarrow> False | Some e \<Rightarrow> e \<le> threshold)
          then {''EXPIRED_CREDITING''} else {})
     \<union> (if ''transparency_score'' \<in> set cols \<and> transparency_score_col y < 40
          then {''INCOMPLETE_DATA''} else {})"

text \<open>
  Every row \<open>x\<close> of a frame of flagged rows comes, in order, from a scored row
  \<open>y\<close>, and its flags are exactly the codes \<open>T y\<close>, without repetition.
\<close>

definition tracks ::
  "(scored \<Rightarrow> string set) \<Rightarrow> scored list \<Rightarrow> 'a with_flags_scheme list \<Rightarrow> bool" where
  "tracks T ys xs =
     list_all2 (\<lambda>y x. scored.truncate x = y \<and> distinct (flags x) \<and> set (flags x) = T y) ys xs"

section \<open>Sample inputs\<close>

text \<open>
  A project with no dates and no documentation fields, 100 credits issued and none
  retired; the theorems below vary single fields of it.
\<close>

definition sample_project :: project where
  "sample_project =
     \<lparr>project_type = Some ''Solar'', country = Some ''Brazil'',
      registration_date = None, crediting_period_start = None,
      crediting_period_end = None, total_issued = 100, total_retired = 0,
      total_buffer_pool = None, estimated_annual_reductions = None,
      proponent = None, region = None\<rparr>"

definition sample_columns :: "string list" where
  "sample_columns =
     [''project_type'', ''country'', ''registration_date'', ''total_issued'',
      ''total_retired'']"

text \<open>The scored frame of the sample project alone, at reference date 0.\<close>

definition sample_scored :: "scored dataframe" where
  "sample_scored =
     \<lparr>columns = sample_columns @ score_columns, rows = [score_row 0 sample_project]\<rparr>"

text \<open>Two frames without any flag: one record with an empty flag list, and no record.\<close>

definition flagless_frame :: "with_flags dataframe" where
  "flagless_frame =
     \<lparr>columns = sample_columns @ score_columns @ [''flags''],
      rows = [scored.extend (score_row 0 sample_project) (with_flags.fields [])]\<rparr>"

definition empty_frame :: "with_flags dataframe" where
  "empty_frame = \<lparr>columns = sample_columns @ score_columns @ [''flags''], rows = []\<rparr>"

text \<open>A frame whose schema has none of the columns that the flag rules read.\<close>

definition bare_frame :: "with_flags dataframe" where
  "bare_frame =
     \<lparr>columns = [''project_id'', ''flags''],
      rows = [scored.extend (score_row 0 sample_project) (with_flags.fields [])]\<rparr>"

text \<open>
  A frame of two projects with missing inputs: the first has no project type, no
  country, no dates and nothing issued; the second is in a country that the governance
  table does not list.
\<close>

definition missing_inputs_frame :: "project dataframe" where
  "missing_inputs_frame =
     \<lparr>columns = sample_columns,
      rows = [sample_project\<lparr>project_type := None, country := None, total_issued := 0\<rparr>,
              sample_project\<lparr>country := Some ''Atlantis''\<rparr>]\<rparr>"

text \<open>Two frames of one project each, without a project type and without a country column.\<close>

definition no_project_type_frame :: "project dataframe" where
  "no_project_type_frame =
     \<lparr>columns = [''country'', ''registration_date'', ''total_issued'', ''total_retired''],
      rows = [sample_project\<lparr>project_type := None\<rparr>]\<rparr>"

definition no_country_frame :: "project dataframe" where
  "no_country_frame =
     \<lparr>columns = [''project_type'', ''registration_date'', ''total_issued'', ''total_retired''],
      rows = [sample_project\<lparr>country := None\<rparr>]\<rparr>"

section \<open>Properties of the scorer\<close>

subsection \<open>Unfolding lemmas\<close>

lemma high_lower:
  "map lower HIGH_RISK_TYPES =
     [''redd+'', ''avoided deforestation'',
      ''avoided unplanned deforestation and degradation'']"
  by (simp add: HIGH_RISK_TYPES_def lower_def lower_char_def upper_letters_def lower_letters_def)

lemma medium_lower:
  "map lower MEDIUM_RISK_TYPES =
     [''improved forest management'', ''agriculture forestry and other land use'',
      ''afforestation/reforestation'']"
  by (simp add: MEDIUM_RISK_TYPES_def lower_def lower_char_def upper_letters_def lower_letters_def)

lemma list_ex_lower:
  "list_ex (\<lambda>t. str_contains (lower t) s) ts = list_ex (\<lambda>t. str_contains t s) (map lower ts)"
  by (simp add: list_ex_iff)

lemma project_type_score_Some:
  "project_type_score (Some s) =
     (if list_ex (\<lambda>t. str_contains t (lower (strip s)))
           [''redd+'', ''avoided deforestation'',
            ''avoided unplanned deforestation and degradation''] then 30
      else if list_ex (\<lambda>t. str_contains t (lower (strip s)))
           [''improved forest management'', ''agriculture forestry and other land use'',
            ''afforestation/reforestation''] then 60
      else 85)"
  unfolding project_type_score_def Let_def option.case list_ex_lower high_lower medium_lower ..

lemma project_type_score_Solar: "project_type_score (Some ''Solar'') = 85"
  by (simp add: project_type_score_Some strip_def isspace_def lower_def lower_char_def upper_letters_def lower_letters_def)

lemma governance_score_Brazil: "governance_score (Some ''Brazil'') = 55"
  by (simp add: governance_score_def COUNTRY_GOVERNANCE_SCORE_def strip_def isspace_def
      py_round_def rint_def)

lemma cqi_score_row:
  "cqi (score_row ref p) =
     py_round (vintage_score p ref * 0.20 + retirement_ratio_score p * 0.20
               + project_type_score (project_type p) * 0.20 + transparency_score p * 0.15
               + additionality_score p ref * 0.15 + governance_score (country p) * 0.10) 2"
  by (simp add: score_row_def Let_def weighted_sum_def WEIGHTS_def)

lemma quality_tier_score_row: "quality_tier (score_row ref p) = cut_tier (cqi (score_row ref p))"
  by (simp add: score_row_def Let_def)

lemma retirement_ratio_score_col_score_row:
  "retirement_ratio_score_col (score_row ref p) = retirement_ratio_score p"
  by (simp add: score_row_def Let_def)

lemma rows_score_all:
  "score_all df ref = Inr d \<Longrightarrow> rows d = map (score_row ref) (rows df)"
  by (auto simp: score_all_def split: if_splits)

lemma score_all_sample:
  "score_all \<lparr>columns = sample_columns, rows = rs\<rparr> ref =
     Inr \<lparr>columns = sample_columns @ score_columns, rows = map (score_row ref) rs\<rparr>"
  by (simp add: score_all_def sample_columns_def score_columns_def set_column_def)

lemma sample_cqi: "cqi (score_row 0 sample_project) = 40"
proof -
  have "vintage_score sample_project 0 = 50"
    by (simp add: vintage_score_def sample_project_def)
  moreover have "retirement_ratio_score sample_project = 0"
    by (simp add: retirement_ratio_score_def sample_project_def)
  moreover have "project_type_score (project_type sample_project) = 85"
    by (simp add: sample_project_def project_type_score_Solar)
  moreover have "transparency_score sample_project = 0"
    by (simp add: transparency_score_def sample_project_def populated_obj_def
        populated_num_def py_round_def rint_def)
  moreover have "additionality_score sample_project 0 = 50"
    by (simp add: additionality_score_def sample_project_def)
  moreover have "governance_score (country sample_project) = 55"
    by (simp add: sample_project_def governance_score_Brazil)
  ultimately show ?thesis
    by (simp add: cqi_score_row py_round_def rint_def)
qed

subsection \<open>Range of the sub-scores\<close>

text \<open>
  Five of the six sub-scores and the composite index lie in \<open>[0, 100]\<close> for every
  record and reference date; the retirement score lies in \<open>[0, 120)\<close>.
\<close>

lemma rint_bounds:
  assumes "of_int a \<le> x" and "x \<le> of_int b"
  shows "a \<le> rint x \<and> rint x \<le> b"
proof -
  define f where "f = \<lfloor>x\<rfloor>"
  define d where "d = x - of_int f"
  from assms(1) have af: "a \<le> f"
    unfolding f_def by (simp add: le_floor_iff)
  from assms(2) have fb: "f \<le> b"
    unfolding f_def using floor_mono [of x "of_int b"] by simp
  have r: "rint x = (if d < 1 / 2 then f else if 1 / 2 < d then f + 1
                     else if even f then f else f + 1)"
    unfolding rint_def Let_def f_def d_def ..
  show ?thesis
  proof (cases "d < 1 / 2")
    case True
    with r af fb show ?thesis by simp
  next
    case False
    then have "of_int f < x"
      unfolding d_def by simp
    with assms(2) have "(of_int f :: real) < of_int b"
      by linarith
    then have "f + 1 \<le> b"
      by simp
    with r af fb show ?thesis
      by simp
  qed
qed

lemma py_round_bounds:
  assumes "of_int a \<le> x" and "x \<le> of_int b"
  shows "of_int a \<le> py_round x n \<and> py_round x n \<le> of_int b"
proof -
  have p: "(0::real) < 10 ^ n" by simp
  have "of_int (a * 10 ^ n) \<le> x * 10 ^ n" "x * 10 ^ n \<le> of_int (b * 10 ^ n)"
    using assms by simp_all
  from rint_bounds [OF this]
  have "a * 10 ^ n \<le> rint (x * 10 ^ n)" "rint (x * 10 ^ n) \<le> b * 10 ^ n" by simp_all
  then have "(of_int (a * 10 ^ n) :: real) \<le> of_int (rint (x * 10 ^ n))"
    "(of_int (rint (x * 10 ^ n)) :: real) \<le> of_int (b * 10 ^ n)"
    by (simp_all only: of_int_le_iff)
  then show ?thesis
    using p by (simp add: py_round_def pos_le_divide_eq pos_divide_le_eq)
qed

lemma vintage_score_range: "10 \<le> vintage_score r ref \<and> vintage_score r ref \<le> 100"
  by (simp add: vintage_score_def Let_def max_def split: option.splits)

lemma retirement_ratio_score_range:
  "0 \<le> retirement_ratio_score r \<and> retirement_ratio_score r < 120"
proof -
  define ratio where "ratio = total_retired r / total_issued r"
  have "retirement_ratio_score r =
     (if total_issued r \<le> 0 then 50
      else if ratio \<ge> 0.80 then 100
      else if ratio \<ge> 0.50 then 60 + (ratio - 0.50) * 200
      else if ratio \<ge> 0.20 then 30 + (ratio - 0.20) * 100
      else if ratio \<ge> 0.05 then 10 + (ratio - 0.05) * 133
      else max 0 (ratio * 200))"
    unfolding retirement_ratio_score_def Let_def ratio_def ..
  then show ?thesis
    by (simp add: max_def)
qed

lemma project_type_score_range: "30 \<le> project_type_score v \<and> project_type_score v \<le> 85"
  by (simp add: project_type_score_def Let_def split: option.splits)

lemma additionality_score_range:
  "15 \<le> additionality_score r ref \<and> additionality_score r ref \<le> 90"
  by (simp add: additionality_score_def Let_def split: option.splits)

lemma transparency_score_range: "0 \<le> transparency_score r \<and> transparency_score r \<le> 100"
proof -
  define n where "n = populated_obj (proponent r) + populated_obj (region r)
            + populated_obj (crediting_period_start r)
            + populated_obj (crediting_period_end r)
            + populated_num (estimated_annual_reductions r)
            + populated_num (total_buffer_pool r)"
  have o: "populated_obj v \<le> 1" for v :: "'x option"
    by (simp add: populated_obj_def split: option.splits)
  have m: "populated_num v \<le> 1" for v
    by (simp add: populated_num_def split: option.splits)
  have "n \<le> 6"
    unfolding n_def
    using o [of "proponent r"] o [of "region r"] o [of "crediting_period_start r"]
      o [of "crediting_period_end r"] m [of "estimated_annual_reductions r"]
      m [of "total_buffer_pool r"]
    by linarith
  then have "of_int 0 \<le> real n / 6 * 100" "real n / 6 * 100 \<le> of_int 100"
    by simp_all
  from py_round_bounds [OF this, of 1]
  have "0 \<le> py_round (real n / 6 * 100) 1 \<and> py_round (real n / 6 * 100) 1 \<le> 100"
    by simp
  moreover have "transparency_score r = py_round (real n / 6 * 100) 1"
    unfolding transparency_score_def Let_def n_def ..
  ultimately show ?thesis
    by (simp only:)
qed


lemma governance_table_range:
  "\<forall>(k, g)\<in>set COUNTRY_GOVERNANCE_SCORE. 0 \<le> g \<and> g \<le> 1"
  by (simp add: COUNTRY_GOVERNANCE_SCORE_def)

lemma governance_score_range: "0 \<le> governance_score v \<and> governance_score v \<le> 100"
proof (cases v)
  case None
  then show ?thesis
    by (simp add: governance_score_def DEFAULT_GOVERNANCE_SCORE_def)
next
  case (Some c)
  define score where "score = (case map_of COUNTRY_GOVERNANCE_SCORE (strip c) of
                          None \<Rightarrow> DEFAULT_GOVERNANCE_SCORE | Some g \<Rightarrow> g)"
  have "0 \<le> score \<and> score \<le> 1"
  proof (cases "map_of COUNTRY_GOVERNANCE_SCORE (strip c)")
    case None
    then show ?thesis
      by (simp add: score_def DEFAULT_GOVERNANCE_SCORE_def)
  next
    case (Some g)
    then have "(strip c, g) \<in> set COUNTRY_GOVERNANCE_SCORE"
      by (rule map_of_SomeD)
    with governance_table_range have "0 \<le> g \<and> g \<le> 1"
      by fast
    with Some show ?thesis
      by (simp add: score_def)
  qed
  then have "of_int 0 \<le> score * 100" "score * 100 \<le> of_int 100"
    by simp_all
  from py_round_bounds [OF this, of 1]
  have "0 \<le> py_round (score * 100) 1 \<and> py_round (score * 100) 1 \<le> 100"
    by simp
  moreover have "governance_score v = py_round (score * 100) 1"
    unfolding Some governance_score_def Let_def score_def option.case ..
  ultimately show ?thesis
    by (simp only:)
qed

lemma cqi_range: "0 \<le> cqi (score_row ref p) \<and> cqi (score_row ref p) \<le> 100"
proof -
  define s where "s = vintage_score p ref * 0.20 + retirement_ratio_score p * 0.20
               + project_type_score (project_type p) * 0.20 + transparency_score p * 0.15
               + additionality_score p ref * 0.15 + governance_score (country p) * 0.10"
  have "0 \<le> s \<and> s \<le> 100"
    unfolding s_def
    using vintage_score_range [of p ref] retirement_ratio_score_range [of p]
      project_type_score_range [of "project_type p"] transparency_score_range [of p]
      additionality_score_range [of p ref] governance_score_range [of "country p"]
    by simp
  then have "of_int 0 \<le> s" "s \<le> of_int 100"
    by simp_all
  from py_round_bounds [OF this, of 2] have "0 \<le> py_round s 2 \<and> py_round s 2 \<le> 100"
    by simp
  then show ?thesis
    unfolding cqi_score_row s_def .
qed

text \<open>
  Claim C1 says that every sub-score and the composite index lie in \<open>[0, 100]\<close>. The
  retirement branch for ratios from 0.50 up to 0.80 is \<open>60 + (ratio - 0.50) * 200\<close>,
  which passes 100 at ratio 0.70. For 75 credits retired out of 100 issued
  \<^verbatim>\<open>score_all\<close> stores a \<^verbatim>\<open>retirement_ratio_score\<close> of 110.
\<close>

theorem C1_retirement_ratio_score_above_100:
  "map_sum id (\<lambda>d. map retirement_ratio_score_col (rows d))
     (score_all \<lparr>columns = sample_columns,
                 rows = [sample_project\<lparr>total_retired := 75\<rparr>]\<rparr> 0)
   = Inr [110]"
  by (simp add: score_all_sample retirement_ratio_score_col_score_row
      retirement_ratio_score_def sample_project_def)

subsection \<open>The tier of the boundary value 40\<close>

text \<open>
  Claim C3 as stated (an index of exactly 40 is in tier "Low") fails: the sample
  project has a composite index of exactly 40 and \<^verbatim>\<open>score_all\<close> puts it in the tier
  "Very Low".
\<close>

theorem C3_tier_of_40_is_not_Low:
  "score_all \<lparr>columns = sample_columns, rows = [sample_project]\<rparr> 0 =
     Inr \<lparr>columns = sample_columns @ score_columns, rows = [score_row 0 sample_project]\<rparr>
   \<and> cqi (score_row 0 sample_project) = 40
   \<and> quality_tier (score_row 0 sample_project) = Some ''Very Low''
   \<and> quality_tier (score_row 0 sample_project) \<noteq> Some ''Low''"
  by (simp add: score_all_sample quality_tier_score_row sample_cqi cut_tier_def)

text \<open>
  Claim C3, amended: every record that \<^verbatim>\<open>score_all\<close> gives a composite index of
  exactly 40 is in the tier "Very Low": the bins are closed on the right, so the
  boundary value belongs to the lower of the two adjacent tiers.
\<close>

theorem C3_tier_of_40_is_Very_Low:
  assumes "score_all df ref = Inr d" and "x \<in> set (rows d)" and "cqi x = 40"
  shows "quality_tier x = Some ''Very Low''"
proof -
  from assms(1,2) obtain p where x: "x = score_row ref p"
    by (auto simp: rows_score_all)
  with assms(3) show ?thesis
    by (simp add: quality_tier_score_row cut_tier_def)
qed

theorem C3_tier_of_40_is_Very_Low_witness:
  "score_all \<lparr>columns = sample_columns, rows = [sample_project]\<rparr> 0 =
     Inr \<lparr>columns = sample_columns @ score_columns, rows = [score_row 0 sample_project]\<rparr>
   \<and> score_row 0 sample_project
       \<in> set (rows \<lparr>columns = sample_columns @ score_columns,
                      rows = [score_row 0 sample_project]\<rparr>)
   \<and> cqi (score_row 0 sample_project) = 40
   \<and> quality_tier (score_row 0 sample_project) = Some ''Very Low''"
proof -
  have h1: "score_all \<lparr>columns = sample_columns, rows = [sample_project]\<rparr> 0 =
     Inr \<lparr>columns = sample_columns @ score_columns, rows = [score_row 0 sample_project]\<rparr>"
    by (simp add: score_all_sample)
  have h2: "score_row 0 sample_project
       \<in> set (rows \<lparr>columns = sample_columns @ score_columns,
                      rows = [score_row 0 sample_project]\<rparr>)"
    by simp
  have h3: "cqi (score_row 0 sample_project) = 40"
    by (rule sample_cqi)
  from C3_tier_of_40_is_Very_Low [OF h1 h2 h3] h1 h2 h3 show ?thesis
    by blast
qed

subsection \<open>Monotonicity of the retirement score\<close>

text \<open>
  Claim C4 says that, with the issuance fixed, retiring more never lowers the
  retirement score. With 100 credits issued, 79 retired score 118 and 80 retired
  score 100: the score drops where the ratio reaches 0.80.
\<close>

theorem C4_retirement_ratio_score_drops_at_80:
  "retirement_ratio_score (sample_project\<lparr>total_retired := 79\<rparr>) = 118
   \<and> retirement_ratio_score (sample_project\<lparr>total_retired := 80\<rparr>) = 100"
  by (simp add: retirement_ratio_score_def sample_project_def)

subsection \<open>Monotonicity of the vintage score\<close>

text \<open>
  Claim C9: for records with a registration date, an older registration (a greater
  age in years of 365.25 days at the reference date) never has a greater vintage score.
\<close>

theorem C9_vintage_score_antimono:
  assumes "registration_date r1 = Some d1" and "registration_date r2 = Some d2"
    and "age_years ref d1 \<le> age_years ref d2"
  shows "vintage_score r2 ref \<le> vintage_score r1 ref"
  using assms by (simp add: vintage_score_def Let_def max_def)

theorem C9_vintage_score_antimono_witness:
  "registration_date (sample_project\<lparr>registration_date := Some (2000 * ns_per_day)\<rparr>)
     = Some (2000 * ns_per_day)
   \<and> registration_date (sample_project\<lparr>registration_date := Some 0\<rparr>) = Some 0
   \<and> age_years (4000 * ns_per_day) (2000 * ns_per_day) \<le> age_years (4000 * ns_per_day) 0
   \<and> vintage_score (sample_project\<lparr>registration_date := Some 0\<rparr>) (4000 * ns_per_day)
       \<le> vintage_score (sample_project\<lparr>registration_date := Some (2000 * ns_per_day)\<rparr>)
           (4000 * ns_per_day)"
proof -
  have h1: "registration_date (sample_project\<lparr>registration_date := Some (2000 * ns_per_day)\<rparr>)
     = Some (2000 * ns_per_day)"
    by simp
  have h2: "registration_date (sample_project\<lparr>registration_date := Some 0\<rparr>) = Some 0"
    by simp
  have h3: "age_years (4000 * ns_per_day) (2000 * ns_per_day) \<le> age_years (4000 * ns_per_day) 0"
    by (simp add: age_years_def days_def ns_per_day_def)
  from C9_vintage_score_antimono [OF h1 h2 h3] h1 h2 h3 show ?thesis
    by blast
qed

section \<open>Properties of the detector\<close>

subsection \<open>Rows of the detected frame\<close>

lemma trunc_flags_update: "scored.truncate (x\<lparr>flags := fl\<rparr>) = scored.truncate x"
  by (simp add: scored.truncate_def)

lemma trunc_init: "scored.truncate (scored.extend y (with_flags.fields fl)) = y"
  by (cases y) (simp add: scored.defs project.defs with_flags.defs)

lemma flags_init: "flags (scored.extend y (with_flags.fields fl)) = fl"
  by (cases y) (simp add: scored.defs project.defs with_flags.defs)

lemma trunc_finish: "scored.truncate (with_flags.extend x (flagged.fields n s)) = scored.truncate x"
  by (cases x) (simp add: scored.defs project.defs with_flags.defs flagged.defs)

lemma flags_finish: "flags (with_flags.extend x (flagged.fields n s)) = flags x"
  by (cases x) (simp add: scored.defs project.defs with_flags.defs flagged.defs)

lemma flag_count_finish: "flag_count (with_flags.extend x (flagged.fields n s)) = n"
  by (cases x) (simp add: scored.defs project.defs with_flags.defs flagged.defs)

lemma max_severity_col_finish: "max_severity_col (with_flags.extend x (flagged.fields n s)) = s"
  by (cases x) (simp add: scored.defs project.defs with_flags.defs flagged.defs)

lemma trunc_fields:
  "vintage_score_col (scored.truncate x) = vintage_score_col x"
  "total_issued (scored.truncate x) = total_issued x"
  "total_retired (scored.truncate x) = total_retired x"
  "project_type (scored.truncate x) = project_type x"
  "additionality_score_col (scored.truncate x) = additionality_score_col x"
  "governance_score_col (scored.truncate x) = governance_score_col x"
  "crediting_period_end (scored.truncate x) = crediting_period_end x"
  "transparency_score_col (scored.truncate x) = transparency_score_col x"
  by (simp_all add: scored.truncate_def)

lemma retirement_ratio_truncate: "retirement_ratio (scored.truncate x) = retirement_ratio x"
  by (simp add: retirement_ratio_def trunc_fields)

lemma columns_add_flag: "columns (add_flag df m c) = columns df"
  by (simp add: add_flag_def)

lemma tracks_add_flag:
  assumes "tracks T ys (rows df)" and "\<And>x. m x = m' (scored.truncate x)"
  shows "tracks (\<lambda>y. T y \<union> (if G \<and> m' y then {c} else {})) ys
           (rows (if G then add_flag df m c else df))"
proof (cases G)
  case False
  with assms(1) show ?thesis by simp
next
  case True
  have "list_all2 (\<lambda>y x. scored.truncate x = y \<and> distinct (flags x)
            \<and> set (flags x) = T y \<union> (if m' y then {c} else {})) ys
          (map (\<lambda>x. if m x then x\<lparr>flags := (if c \<notin> set (flags x) then flags x @ [c] else flags x)\<rparr>
                   else x) (rows df))"
    using assms(1) unfolding tracks_def list_all2_map2
    by (rule list_all2_mono) (auto simp: assms(2) trunc_flags_update)
  with True show ?thesis
    by (simp add: tracks_def add_flag_def)
qed


lemma set_set_column: "set (set_column n cols) = insert n (set cols)"
  by (auto simp: set_column_def)

lemma tracks_detect_flags:
  fixes df :: "scored dataframe"
  defines "d0 \<equiv> \<lparr>columns = set_column ''flags'' (columns df),
                rows = map (\<lambda>x. scored.extend x (with_flags.fields [])) (rows df)\<rparr>"
  shows "tracks (triggered t (columns df)) (rows df)
     (rows (flag_incomplete_data (flag_expired_crediting t (flag_weak_governance
        (flag_registration_lag (flag_massive_issuance (flag_redd_controversy
          (flag_low_retirement_ratio (flag_zero_retirements (flag_high_vintage d0))))))))))"
proof -
  define d1 where "d1 = flag_high_vintage d0"
  define d2 where "d2 = flag_zero_retirements d1"
  define d3 where "d3 = flag_low_retirement_ratio d2"
  define d4 where "d4 = flag_redd_controversy d3"
  define d5 where "d5 = flag_massive_issuance d4"
  define d6 where "d6 = flag_registration_lag d5"
  define d7 where "d7 = flag_weak_governance d6"
  define d8 where "d8 = flag_expired_crediting t d7"
  define d9 where "d9 = flag_incomplete_data d8"
  have c0: "columns d0 = set_column ''flags'' (columns df)"
    by (simp add: d0_def)
  have c1: "columns d1 = columns d0"
    by (simp add: d1_def flag_high_vintage_def columns_add_flag)
  have c2: "columns d2 = columns d0"
    by (simp add: d2_def flag_zero_retirements_def columns_add_flag c1)
  have c3: "columns d3 = columns d0"
    by (simp add: d3_def flag_low_retirement_ratio_def columns_add_flag c2)
  have c4: "columns d4 = columns d0"
    by (simp add: d4_def flag_redd_controversy_def columns_add_flag c3)
  have c5: "columns d5 = columns d0"
    by (simp add: d5_def flag_massive_issuance_def columns_add_flag c4)
  have c6: "columns d6 = columns d0"
    by (simp add: d6_def flag_registration_lag_def columns_add_flag c5)
  have c7: "columns d7 = columns d0"
    by (simp add: d7_def flag_weak_governance_def columns_add_flag c6)
  have c8: "columns d8 = columns d0"
    by (simp add: d8_def flag_expired_crediting_def columns_add_flag c7)
  note tf = trunc_fields retirement_ratio_truncate
  define T0 :: "scored \<Rightarrow> string set" where "T0 = (\<lambda>y. {})"
  have t0: "tracks T0 (rows df) (rows d0)"
    by (simp add: tracks_def T0_def d0_def list_all2_map2 trunc_init flags_init list_all2_same)
  define T1 where "T1 = (\<lambda>y. T0 y \<union> (if (''vintage_score'' \<in> set (columns d0)) \<and> (vintage_score_col y < 30) then {''HIGH_VINTAGE''} else {}))"
  have t1: "tracks T1 (rows df) (rows d1)"
    unfolding T1_def d1_def flag_high_vintage_def
    by (rule tracks_add_flag [OF t0]) (simp add: tf)
  define T2 where "T2 = (\<lambda>y. T1 y \<union> (if (''total_retired'' \<in> set (columns d0) \<and> ''total_issued'' \<in> set (columns d0)) \<and> (total_issued y > 0 \<and> total_retired y = 0) then {''ZERO_RETIREMENTS''} else {}))"
  have t2: "tracks T2 (rows df) (rows d2)"
    unfolding T2_def d2_def flag_zero_retirements_def c1
    by (rule tracks_add_flag [OF t1]) (simp add: tf)
  define T3 where "T3 = (\<lambda>y. T2 y \<union> (if (''total_retired'' \<in> set (columns d0) \<and> ''total_issued'' \<in> set (columns d0)) \<and> ((case retirement_ratio y of None \<Rightarrow> False | Some ratio \<Rightarrow> ratio < 0.10) \<and> total_issued y > 0 \<and> total_retired y > 0) then {''LOW_RETIREMENT_RATIO''} else {}))"
  have t3: "tracks T3 (rows df) (rows d3)"
    unfolding T3_def d3_def flag_low_retirement_ratio_def c2
    by (rule tracks_add_flag [OF t2]) (simp add: tf)
  define T4 where "T4 = (\<lambda>y. T3 y \<union> (if (''project_type'' \<in> set (columns d0)) \<and> (contains_nocase ''REDD'' (project_type y)) then {''REDD_CONTROVERSY''} else {}))"
  have t4: "tracks T4 (rows df) (rows d4)"
    unfolding T4_def d4_def flag_redd_controversy_def c3
    by (rule tracks_add_flag [OF t3]) (simp add: tf)
  define T5 where "T5 = (\<lambda>y. T4 y \<union> (if (''total_issued'' \<in> set (columns d0)) \<and> (total_issued y > 50000000) then {''MASSIVE_ISSUANCE''} else {}))"
  have t5: "tracks T5 (rows df) (rows d5)"
    unfolding T5_def d5_def flag_massive_issuance_def c4
    by (rule tracks_add_flag [OF t4]) (simp add: tf)
  define T6 where "T6 = (\<lambda>y. T5 y \<union> (if (''additionality_score'' \<in> set (columns d0)) \<and> (additionality_score_col y < 40) then {''REGISTRATION_LAG''} else {}))"
  have t6: "tracks T6 (rows df) (rows d6)"
    unfolding T6_def d6_def flag_registration_lag_def c5
    by (rule tracks_add_flag [OF t5]) (simp add: tf)
  define T7 where "T7 = (\<lambda>y. T6 y \<union> (if (''governance_score'' \<in> set (columns d0)) \<and> (governance_score_col y < GOVERNANCE_THRESHOLD) then {''WEAK_GOVERNANCE''} else {}))"
  have t7: "tracks T7 (rows df) (rows d7)"
    unfolding T7_def d7_def flag_weak_governance_def c6
    by (rule tracks_add_flag [OF t6]) (simp add: tf)
  define T8 where "T8 = (\<lambda>y. T7 y \<union> (if (''crediting_period_end'' \<in> set (columns d0)) \<and> ((case crediting_period_end y of None \<Rightarrow> False | Some e \<Rightarrow> e \<le> t)) then {''EXPIRED_CREDITING''} else {}))"
  have t8: "tracks T8 (rows df) (rows d8)"
    unfolding T8_def d8_def flag_expired_crediting_def c7
    by (rule tracks_add_flag [OF t7]) (simp add: tf)
  define T9 where "T9 = (\<lambda>y. T8 y \<union> (if (''transparency_score'' \<in> set (columns d0)) \<and> (transparency_score_col y < 40) then {''INCOMPLETE_DATA''} else {}))"
  have t9: "tracks T9 (rows df) (rows d9)"
    unfolding T9_def d9_def flag_incomplete_data_def c8
    by (rule tracks_add_flag [OF t8]) (simp add: tf)
  have "T9 = triggered t (columns df)"
    unfolding T9_def T8_def T7_def T6_def T5_def T4_def T3_def T2_def T1_def T0_def
    by (rule ext) (simp add: triggered_def c0 set_set_column)
  with t9 show ?thesis
    by (simp add: d9_def d8_def d7_def d6_def d5_def d4_def d3_def d2_def d1_def)
qed

lemma tracks_detect: "tracks (triggered t (columns df)) (rows df) (rows (detect t df))"
  using tracks_detect_flags [of t df]
  by (simp add: detect_def Let_def tracks_def list_all2_map2 trunc_finish flags_finish)

lemma detect_cols:
  assumes "x \<in> set (rows (detect t df))"
  shows "flag_count x = length (flags x) \<and> max_severity_col x = max_severity (flags x)"
  using assms
  by (auto simp: detect_def Let_def flags_finish flag_count_finish max_severity_col_finish)

lemma detect_row:
  assumes "x \<in> set (rows (detect t df))"
  shows "scored.truncate x \<in> set (rows df) \<and> distinct (flags x)
         \<and> set (flags x) = triggered t (columns df) (scored.truncate x)"
proof -
  from assms obtain i where i: "i < length (rows (detect t df))" "rows (detect t df) ! i = x"
    by (auto simp: in_set_conv_nth)
  have la: "list_all2 (\<lambda>y x. scored.truncate x = y \<and> distinct (flags x)
              \<and> set (flags x) = triggered t (columns df) y) (rows df) (rows (detect t df))"
    using tracks_detect [of t df] by (simp add: tracks_def)
  from la have len: "length (rows df) = length (rows (detect t df))"
    by (rule list_all2_lengthD)
  from la i len have "scored.truncate x = rows df ! i \<and> distinct (flags x)
              \<and> set (flags x) = triggered t (columns df) (rows df ! i)"
    by (auto simp: list_all2_conv_all_nth)
  with i len show ?thesis by auto
qed


lemma in_if_singleton: "c \<in> (if P then {a} else {}) \<longleftrightarrow> c = a \<and> P"
  by simp

lemma triggered_iff:
  "c \<in> triggered t cols y \<longleftrightarrow>
     (c = ''HIGH_VINTAGE'' \<and> ''vintage_score'' \<in> set cols \<and> vintage_score_col y < 30)
   \<or> (c = ''ZERO_RETIREMENTS'' \<and> (''total_retired'' \<in> set cols \<and> ''total_issued'' \<in> set cols)
        \<and> total_issued y > 0 \<and> total_retired y = 0)
   \<or> (c = ''LOW_RETIREMENT_RATIO'' \<and> (''total_retired'' \<in> set cols \<and> ''total_issued'' \<in> set cols)
        \<and> (case retirement_ratio y of None \<Rightarrow> False | Some ratio \<Rightarrow> ratio < 0.10)
        \<and> total_issued y > 0 \<and> total_retired y > 0)
   \<or> (c = ''REDD_CONTROVERSY'' \<and> ''project_type'' \<in> set cols
        \<and> contains_nocase ''REDD'' (project_type y))
   \<or> (c = ''MASSIVE_ISSUANCE'' \<and> ''total_issued'' \<in> set cols \<and> total_issued y > 50000000)
   \<or> (c = ''REGISTRATION_LAG'' \<and> ''additionality_score'' \<in> set cols
        \<and> additionality_score_col y < 40)
   \<or> (c = ''WEAK_GOVERNANCE'' \<and> ''governance_score'' \<in> set cols
        \<and> governance_score_col y < GOVERNANCE_THRESHOLD)
   \<or> (c = ''EXPIRED_CREDITING'' \<and> ''crediting_period_end'' \<in> set cols
        \<and> (case crediting_period_end y of None \<Rightarrow> False | Some e \<Rightarrow> e \<le> t))
   \<or> (c = ''INCOMPLETE_DATA'' \<and> ''transparency_score'' \<in> set cols
        \<and> transparency_score_col y < 40)"
  by (simp only: triggered_def Un_iff in_if_singleton disj_assoc)

lemma zero_triggered: "''ZERO_RETIREMENTS'' \<in> triggered t cols y \<Longrightarrow> total_retired y = 0"
  by (simp add: triggered_iff)

lemma low_triggered: "''LOW_RETIREMENT_RATIO'' \<in> triggered t cols y \<Longrightarrow> total_retired y > 0"
  by (simp add: triggered_iff)

lemma length_rows_detect: "length (rows (detect t df)) = length (rows df)"
  using tracks_detect [of t df] by (simp add: tracks_def list_all2_lengthD)

lemma sample_ledger:
  "total_issued (score_row 0 sample_project) = 100"
  "total_retired (score_row 0 sample_project) = 0"
  by (simp_all add: score_row_def Let_def sample_project_def)

lemma hd_sample_detect:
  "hd (rows (detect t sample_scored)) \<in> set (rows (detect t sample_scored))"
  "scored.truncate (hd (rows (detect t sample_scored))) = score_row 0 sample_project"
  "set (flags (hd (rows (detect t sample_scored))))
     = triggered t (sample_columns @ score_columns) (score_row 0 sample_project)"
proof -
  have "length (rows (detect t sample_scored)) = 1"
    by (simp add: length_rows_detect sample_scored_def)
  then have ne: "rows (detect t sample_scored) \<noteq> []"
    by auto
  then show m: "hd (rows (detect t sample_scored)) \<in> set (rows (detect t sample_scored))"
    by simp
  from detect_row [OF m]
  show tr: "scored.truncate (hd (rows (detect t sample_scored))) = score_row 0 sample_project"
    by (simp add: sample_scored_def)
  from detect_row [OF m] tr
  show "set (flags (hd (rows (detect t sample_scored))))
     = triggered t (sample_columns @ score_columns) (score_row 0 sample_project)"
    by (simp add: sample_scored_def)
qed

lemma sample_zero_retirements:
  "''ZERO_RETIREMENTS'' \<in> set (flags (hd (rows (detect t sample_scored))))"
  by (simp add: hd_sample_detect triggered_iff sample_ledger sample_columns_def)

subsection \<open>Zero retirements and low retirement ratio\<close>

text \<open>
  Claim C6: no row that \<^verbatim>\<open>detect\<close> returns carries both \<^verbatim>\<open>ZERO_RETIREMENTS\<close> and
  \<^verbatim>\<open>LOW_RETIREMENT_RATIO\<close>: the first is only added where \<^verbatim>\<open>total_retired\<close> is 0,
  the second only where it is positive.
\<close>

theorem C6_zero_and_low_exclusive:
  assumes "x \<in> set (rows (detect t df))"
  shows "(''ZERO_RETIREMENTS'' \<in> set (flags x) \<longrightarrow> total_retired x = 0)
       \<and> (''LOW_RETIREMENT_RATIO'' \<in> set (flags x) \<longrightarrow> total_retired x > 0)
       \<and> \<not> (''ZERO_RETIREMENTS'' \<in> set (flags x) \<and> ''LOW_RETIREMENT_RATIO'' \<in> set (flags x))"
proof -
  from detect_row [OF assms]
  have s: "set (flags x) = triggered t (columns df) (scored.truncate x)" by simp
  have z: "total_retired x = 0" if "''ZERO_RETIREMENTS'' \<in> set (flags x)"
    using zero_triggered [of t "columns df" "scored.truncate x"] that
    by (simp only: s trunc_fields)
  have l: "total_retired x > 0" if "''LOW_RETIREMENT_RATIO'' \<in> set (flags x)"
    using low_triggered [of t "columns df" "scored.truncate x"] that
    by (simp only: s trunc_fields)
  show ?thesis
  proof (intro conjI impI notI)
    assume "''ZERO_RETIREMENTS'' \<in> set (flags x) \<and> ''LOW_RETIREMENT_RATIO'' \<in> set (flags x)"
    then have "total_retired x = 0" and "total_retired x > 0"
      using z l by blast+
    then show False by simp
  qed (rule z l, assumption)+
qed

theorem C6_zero_and_low_exclusive_witness:
  "hd (rows (detect 0 sample_scored)) \<in> set (rows (detect 0 sample_scored))
   \<and> ''ZERO_RETIREMENTS'' \<in> set (flags (hd (rows (detect 0 sample_scored))))
   \<and> total_retired (hd (rows (detect 0 sample_scored))) = 0
   \<and> ''LOW_RETIREMENT_RATIO'' \<notin> set (flags (hd (rows (detect 0 sample_scored))))"
  using C6_zero_and_low_exclusive [OF hd_sample_detect(1) [of 0]] sample_zero_retirements [of 0]
    hd_sample_detect(1) [of 0]
  by simp

subsection \<open>Worst severity\<close>

lemma catalogue_severities:
  "map (\<lambda>(k, e). (k, severity e)) FLAG_CATALOGUE =
     [(''HIGH_VINTAGE'', ''medium''), (''ZERO_RETIREMENTS'', ''high''),
      (''LOW_RETIREMENT_RATIO'', ''medium''), (''REDD_CONTROVERSY'', ''high''),
      (''MASSIVE_ISSUANCE'', ''medium''), (''REGISTRATION_LAG'', ''medium''),
      (''WEAK_GOVERNANCE'', ''medium''), (''EXPIRED_CREDITING'', ''low''),
      (''INCOMPLETE_DATA'', ''low'')]"
  by (simp add: FLAG_CATALOGUE_def)

lemma catalogue_severity:
  "map_option severity (map_of FLAG_CATALOGUE f) =
     map_of [(''HIGH_VINTAGE'', ''medium''), (''ZERO_RETIREMENTS'', ''high''),
      (''LOW_RETIREMENT_RATIO'', ''medium''), (''REDD_CONTROVERSY'', ''high''),
      (''MASSIVE_ISSUANCE'', ''medium''), (''REGISTRATION_LAG'', ''medium''),
      (''WEAK_GOVERNANCE'', ''medium''), (''EXPIRED_CREDITING'', ''low''),
      (''INCOMPLETE_DATA'', ''low'')] f"
  unfolding catalogue_severities [symmetric] by (simp add: map_of_map)

lemma catalogue_severity_cases:
  assumes "map_option severity (map_of FLAG_CATALOGUE f) = Some s"
  shows "s = ''high'' \<or> s = ''medium'' \<or> s = ''low''"
  using assms unfolding catalogue_severity by (simp split: if_splits)

lemma severity_order_simps:
  "severity_order ''high'' = 3" "severity_order ''medium'' = 2" "severity_order ''low'' = 1"
  by (simp_all add: severity_order_def)

lemma triggered_in_catalogue:
  assumes "c \<in> triggered t cols y"
  shows "\<exists>s. map_option severity (map_of FLAG_CATALOGUE c) = Some s"
proof -
  from assms have "c = ''HIGH_VINTAGE'' \<or> c = ''ZERO_RETIREMENTS'' \<or> c = ''LOW_RETIREMENT_RATIO''
      \<or> c = ''REDD_CONTROVERSY'' \<or> c = ''MASSIVE_ISSUANCE'' \<or> c = ''REGISTRATION_LAG''
      \<or> c = ''WEAK_GOVERNANCE'' \<or> c = ''EXPIRED_CREDITING'' \<or> c = ''INCOMPLETE_DATA''"
    unfolding triggered_iff by (elim disjE conjE) simp_all
  then show ?thesis
    unfolding catalogue_severity by (elim disjE) simp_all
qed

lemma max_key_in: "max_key key x xs \<in> set (x # xs)"
  unfolding max_key_def by (induction xs arbitrary: x) auto

lemma max_key_ge: "y \<in> set (x # xs) \<Longrightarrow> key y \<le> key (max_key key x xs)"
  unfolding max_key_def
proof (induction xs arbitrary: x y)
  case Nil
  then show ?case by simp
next
  case (Cons a xs)
  have mono: "key z \<le> key (foldl (\<lambda>best y. if key best < key y then y else best) z xs)" for z
    using Cons.IH [where x = z and y = z] by simp
  show ?case
  proof (cases "y = x")
    case True
    have "key x \<le> key (if key x < key a then a else x)" by simp
    also have "\<dots> \<le> key (foldl (\<lambda>best y. if key best < key y then y else best) (if key x < key a then a else x) xs)"
      by (rule mono)
    finally show ?thesis using True by simp
  next
    case False
    with Cons.prems have ya: "y = a \<or> y \<in> set xs" by simp
    show ?thesis
    proof (cases "key x < key a")
      case True
      with ya Cons.IH [where x = a and y = y] show ?thesis by auto
    next
      case False
      from ya show ?thesis
      proof
        assume "y = a"
        with False have "key y \<le> key x" by simp
        also have "\<dots> \<le> key (foldl (\<lambda>best y. if key best < key y then y else best) x xs)"
          by (rule mono)
        finally show ?thesis using False by simp
      next
        assume "y \<in> set xs"
        with Cons.IH [where x = x and y = y] False show ?thesis by simp
      qed
    qed
  qed
qed

lemma set_map_filter_eq: "set (List.map_filter g xs) = {y. \<exists>x\<in>set xs. g x = Some y}"
  by (induction xs) (auto split: option.splits)


lemma max_severity_Nil: "max_severity [] = ''none''"
  by (simp add: max_severity_def)

lemma max_severity_not_none:
  assumes "fl \<noteq> []"
  shows "max_severity fl \<noteq> ''none''"
proof (cases "List.map_filter (\<lambda>f. map_option severity (map_of FLAG_CATALOGUE f)) fl")
  case Nil
  with assms show ?thesis by (simp add: max_severity_def)
next
  case (Cons s ss)
  from max_key_in [of severity_order s ss] Cons
  have "max_key severity_order s ss \<in> set (List.map_filter (\<lambda>f. map_option severity (map_of FLAG_CATALOGUE f)) fl)"
    by simp
  then obtain f where "map_option severity (map_of FLAG_CATALOGUE f) = Some (max_key severity_order s ss)"
    unfolding set_map_filter_eq by auto
  from catalogue_severity_cases [OF this] have "max_key severity_order s ss \<noteq> ''none''"
    by (elim disjE) simp_all
  with assms Cons show ?thesis by (simp add: max_severity_def)
qed

lemma max_severity_in_catalogue:
  assumes "fl \<noteq> []"
    and "\<And>f. f \<in> set fl \<Longrightarrow> \<exists>s. map_option severity (map_of FLAG_CATALOGUE f) = Some s"
  shows "(\<exists>f\<in>set fl. map_option severity (map_of FLAG_CATALOGUE f) = Some (max_severity fl))
       \<and> (\<forall>f\<in>set fl. \<exists>s. map_option severity (map_of FLAG_CATALOGUE f) = Some s
              \<and> severity_order s \<le> severity_order (max_severity fl))"
proof -
  let ?g = "\<lambda>f. map_option severity (map_of FLAG_CATALOGUE f)"
  from assms(1) obtain f0 where f0: "f0 \<in> set fl"
    by (cases fl) auto
  from assms(2) [OF f0] obtain s0 where "?g f0 = Some s0" ..
  with f0 have "f0 \<in> set fl" "?g f0 = Some s0" by simp_all
  then have "s0 \<in> set (List.map_filter ?g fl)"
    unfolding set_map_filter_eq by auto
  then obtain s ss where Cons: "List.map_filter ?g fl = s # ss"
    by (cases "List.map_filter ?g fl") auto
  with assms(1) have ms: "max_severity fl = max_key severity_order s ss"
    by (simp add: max_severity_def)
  have "max_severity fl \<in> set (List.map_filter ?g fl)"
    using max_key_in [of severity_order s ss] Cons ms by simp
  then have a: "\<exists>f\<in>set fl. ?g f = Some (max_severity fl)"
    unfolding set_map_filter_eq by simp
  have b: "\<exists>s. ?g f = Some s \<and> severity_order s \<le> severity_order (max_severity fl)"
    if "f \<in> set fl" for f
  proof -
    from assms(2) [OF that] obtain s' where s': "?g f = Some s'" ..
    with that have "s' \<in> set (List.map_filter ?g fl)"
      unfolding set_map_filter_eq by auto
    with Cons have "s' \<in> set (s # ss)" by simp
    from max_key_ge [OF this, of severity_order] ms
    have "severity_order s' \<le> severity_order (max_severity fl)" by simp
    with s' show ?thesis by (intro exI [of _ s'] conjI)
  qed
  from a b show ?thesis by blast
qed


text \<open>
  Claim C5: in every row that \<^verbatim>\<open>detect\<close> returns, \<^verbatim>\<open>max_severity\<close> is "none" exactly
  when the row has no flag; otherwise it is the catalogue severity of one of the row's
  flags and no flag of the row has a severity of higher rank (high 3, medium 2,
  low 1); in particular one flag of severity "high" makes it "high".
\<close>

theorem C5_max_severity:
  assumes "x \<in> set (rows (detect t df))"
  shows "(max_severity_col x = ''none'' \<longleftrightarrow> flags x = [])
       \<and> (flags x \<noteq> [] \<longrightarrow>
            (\<exists>f\<in>set (flags x).
               map_option severity (map_of FLAG_CATALOGUE f) = Some (max_severity_col x))
          \<and> (\<forall>f\<in>set (flags x). \<exists>s.
               map_option severity (map_of FLAG_CATALOGUE f) = Some s
               \<and> severity_order s \<le> severity_order (max_severity_col x)))
       \<and> ((\<exists>f\<in>set (flags x). map_option severity (map_of FLAG_CATALOGUE f) = Some ''high'')
            \<longrightarrow> max_severity_col x = ''high'')"
proof -
  let ?g = "\<lambda>f. map_option severity (map_of FLAG_CATALOGUE f)"
  from detect_cols [OF assms] have col: "max_severity_col x = max_severity (flags x)"
    by simp
  from detect_row [OF assms]
  have s: "set (flags x) = triggered t (columns df) (scored.truncate x)" by simp
  have cat: "\<exists>s. ?g f = Some s" if "f \<in> set (flags x)" for f
    using that triggered_in_catalogue [of f t "columns df" "scored.truncate x"]
    by (simp only: s)
  have none: "max_severity_col x = ''none'' \<longleftrightarrow> flags x = []"
    using max_severity_Nil max_severity_not_none [of "flags x"] col by metis
  have best: "(\<exists>f\<in>set (flags x). ?g f = Some (max_severity_col x))
          \<and> (\<forall>f\<in>set (flags x). \<exists>s. ?g f = Some s
               \<and> severity_order s \<le> severity_order (max_severity_col x))"
    if "flags x \<noteq> []"
    unfolding col using max_severity_in_catalogue [OF that cat] by simp
  have high: "max_severity_col x = ''high''" if h: "\<exists>f\<in>set (flags x). ?g f = Some ''high''"
  proof -
    from h obtain f where f: "f \<in> set (flags x)" "?g f = Some ''high''" by blast
    then have ne: "flags x \<noteq> []" by auto
    from best [OF ne] f have "severity_order ''high'' \<le> severity_order (max_severity_col x)"
      by fastforce
    then have three: "3 \<le> severity_order (max_severity_col x)"
      by (simp only: severity_order_simps)
    from best [OF ne] obtain f' where "?g f' = Some (max_severity_col x)" by blast
    from catalogue_severity_cases [OF this] three show ?thesis
      by (elim disjE) (simp_all add: severity_order_simps)
  qed
  from none best high show ?thesis by blast
qed

theorem C5_max_severity_witness:
  "hd (rows (detect 0 sample_scored)) \<in> set (rows (detect 0 sample_scored))
   \<and> ''ZERO_RETIREMENTS'' \<in> set (flags (hd (rows (detect 0 sample_scored))))
   \<and> map_option severity (map_of FLAG_CATALOGUE ''ZERO_RETIREMENTS'') = Some ''high''
   \<and> max_severity_col (hd (rows (detect 0 sample_scored))) = ''high''"
proof -
  have z: "''ZERO_RETIREMENTS'' \<in> set (flags (hd (rows (detect 0 sample_scored))))"
    by (rule sample_zero_retirements)
  have h: "map_option severity (map_of FLAG_CATALOGUE ''ZERO_RETIREMENTS'') = Some ''high''"
    unfolding catalogue_severity by simp
  from z h have "\<exists>f\<in>set (flags (hd (rows (detect 0 sample_scored)))).
          map_option severity (map_of FLAG_CATALOGUE f) = Some ''high''"
    by (intro bexI [of _ "''ZERO_RETIREMENTS''"])
  with C5_max_severity [OF hd_sample_detect(1) [of 0]]
  have "max_severity_col (hd (rows (detect 0 sample_scored))) = ''high''"
    by blast
  with z h hd_sample_detect(1) [of 0] show ?thesis
    by (intro conjI)
qed

subsection \<open>Flag summary\<close>



























text \<open>
  Claim C10: on a frame with a \<^verbatim>\<open>flags\<close> column in which no record carries a flag
  (the frame without records included) \<^verbatim>\<open>get_flag_summary\<close> returns the empty table;
  in particular it does not divide by the number of records.
\<close>

theorem C10_flag_summary_flagless:
  assumes "''flags'' \<in> set (columns df)" and "\<forall>x\<in>set (rows df). flags x = []"
  shows "get_flag_summary df = Inr []"
proof -
  from assms(2) have c: "concat (map flags (rows df)) = []"
    by simp
  show ?thesis
    unfolding get_flag_summary_def Let_def c using assms(1)
    by (simp add: Counter_def most_common_def)
qed

theorem C10_flag_summary_flagless_witness:
  "''flags'' \<in> set (columns flagless_frame)
   \<and> map flags (rows flagless_frame) = [[]]
   \<and> get_flag_summary flagless_frame = Inr []
   \<and> ''flags'' \<in> set (columns empty_frame)
   \<and> rows empty_frame = []
   \<and> get_flag_summary empty_frame = Inr []"
proof -
  have c1: "''flags'' \<in> set (columns flagless_frame)"
    by (simp add: flagless_frame_def)
  have f1: "map flags (rows flagless_frame) = [[]]"
    by (simp add: flagless_frame_def flags_init)
  then have a1: "\<forall>x\<in>set (rows flagless_frame). flags x = []"
    by (simp add: flagless_frame_def)
  have c2: "''flags'' \<in> set (columns empty_frame)"
    by (simp add: empty_frame_def)
  have f2: "rows empty_frame = []"
    by (simp add: empty_frame_def)
  then have a2: "\<forall>x\<in>set (rows empty_frame). flags x = []"
    by simp
  from C10_flag_summary_flagless [OF c1 a1] C10_flag_summary_flagless [OF c2 a2] c1 f1 c2 f2
  show ?thesis by (intro conjI)
qed






lemma bit_length_values:
  "bit_length 1 = 1" "bit_length 4503599627370496 = 53"
  "bit_length 450359962737049600 = 59"
  "bit_length 23 = 5" "bit_length 80 = 7"
  "bit_length 517913957147607000 = 59" "bit_length 18014398509481984 = 55"
  by (simp_all add: bit_length.simps)





text \<open>
  23 records of 80: the quotient and the product in doubles give a value just below
  28.75, which rounds to 28.7, while the exact percentage 28.75 rounds to 28.8.
\<close>

lemma truediv_23_80: "int_truediv 23 80 = (5179139571476070, - 54)"
  by (simp add: int_truediv_def nearest_double_def bit_length_values rdiv_def Let_def)

lemma nearest_double_28:
  "nearest_double 517913957147607000 18014398509481984 = (8092405580431359, - 48)"
  by (simp add: nearest_double_def bit_length_values rdiv_def Let_def)

lemma mul_23_80_100: "float_mul_int (5179139571476070, - 54) 100 = (8092405580431359, - 48)"
proof -
  have "float_mul_int (5179139571476070, - 54) 100
          = nearest_double 517913957147607000 18014398509481984"
    by (simp add: float_mul_int_def)
  then show ?thesis
    by (simp only: nearest_double_28)
qed

lemma pct_23_of_80:
  "py_round (float_val (float_mul_int (int_truediv 23 80) 100)) 1 = 28.7"
  "py_round (23 / 80 * 100) 1 = 28.8"
proof -
  have "float_val (8092405580431359, - 48) = 8092405580431359 / 281474976710656"
    by (simp add: float_val_def)
  moreover have "py_round (8092405580431359 / 281474976710656) 1 = 28.7"
    by (simp add: py_round_def rint_def)
  ultimately show "py_round (float_val (float_mul_int (int_truediv 23 80) 100)) 1 = 28.7"
    by (simp only: truediv_23_80 mul_23_80_100)
  show "py_round (23 / 80 * 100) 1 = 28.8"
    by (simp add: py_round_def rint_def)
qed


subsection \<open>REDD project types\<close>

lemma str_contains_sublist: "str_contains n t = sublist n t"
  by (induction t) (simp_all add: sublist_Cons_right)

lemma str_contains_iff: "str_contains n t \<longleftrightarrow> (\<exists>pre post. t = pre @ n @ post)"
  by (simp add: str_contains_sublist sublist_def)

lemma isspace_lower_char: "isspace (lower_char c) = isspace c"
  by (simp add: lower_char_def upper_letters_def lower_letters_def isspace_def)

lemma lower_dropWhile: "lower (dropWhile isspace s) = dropWhile isspace (lower s)"
  by (simp add: lower_def dropWhile_map comp_def isspace_lower_char)

lemma lower_strip: "lower (strip s) = strip (lower s)"
proof -
  have r: "lower (rev s) = rev (lower s)" for s
    by (simp add: lower_def rev_map)
  show ?thesis
    unfolding strip_def by (simp only: r lower_dropWhile)
qed

lemma str_contains_dropWhile:
  assumes "n \<noteq> []" and "\<not> P (hd n)" and "str_contains n t"
  shows "str_contains n (dropWhile P t)"
proof -
  from assms(3) obtain pre post where t: "t = pre @ n @ post"
    unfolding str_contains_iff by blast
  show ?thesis
  proof (cases "\<forall>x\<in>set pre. P x")
    case True
    from assms(1,2) have "dropWhile P (n @ post) = n @ post"
      by (cases n) simp_all
    with True have "dropWhile P t = [] @ n @ post"
      unfolding t by (simp add: dropWhile_append)
    then show ?thesis
      unfolding str_contains_iff by blast
  next
    case False
    then have "dropWhile P t = dropWhile P pre @ n @ post"
      unfolding t by (auto simp: dropWhile_append)
    then show ?thesis
      unfolding str_contains_iff by blast
  qed
qed

lemma str_contains_rev: "str_contains (rev n) (rev t) = str_contains n t"
  by (simp add: str_contains_sublist)

lemma str_contains_strip:
  assumes "n \<noteq> []" and "\<not> isspace (hd n)" and "\<not> isspace (last n)" and "str_contains n t"
  shows "str_contains n (strip t)"
proof -
  from assms(1,2,4) have "str_contains n (dropWhile isspace t)"
    by (rule str_contains_dropWhile)
  then have "str_contains (rev n) (rev (dropWhile isspace t))"
    by (simp only: str_contains_rev)
  moreover from assms(1,3) have "rev n \<noteq> []" "\<not> isspace (hd (rev n))"
    by (simp_all add: hd_rev)
  ultimately have "str_contains (rev n) (dropWhile isspace (rev (dropWhile isspace t)))"
    by (intro str_contains_dropWhile)
  then have "str_contains (rev (rev n)) (rev (dropWhile isspace (rev (dropWhile isspace t))))"
    by (simp only: str_contains_rev)
  then show ?thesis
    by (simp add: strip_def)
qed


lemma lower_REDD: "lower ''REDD+'' = ''redd+''" "lower ''REDD'' = ''redd''"
  by (simp_all add: lower_def lower_char_def upper_letters_def lower_letters_def)

lemma project_type_score_REDD_plus:
  assumes "str_contains (lower ''REDD+'') (lower s)"
  shows "project_type_score (Some s) = 30"
proof -
  have "str_contains ''redd+'' (strip (lower s))"
    using assms unfolding lower_REDD
    by (intro str_contains_strip) (simp_all add: isspace_def)
  then have "str_contains ''redd+'' (lower (strip s))"
    by (simp only: lower_strip)
  then show ?thesis
    by (simp add: project_type_score_Some)
qed

lemma project_type_score_REDD: "project_type_score (Some ''REDD'') = 85"
  by (simp add: project_type_score_Some strip_def isspace_def lower_def lower_char_def upper_letters_def lower_letters_def)

lemma columns_score_all:
  assumes "score_all df ref = Inr sd"
  shows "set (columns df) \<subseteq> set (columns sd)" and "''project_type'' \<in> set (columns df)"
proof -
  have sub: "set cols \<subseteq> set (fold set_column ns cols)" for ns cols
  proof (induction ns arbitrary: cols)
    case Nil
    show ?case by simp
  next
    case (Cons a ns)
    have "set cols \<subseteq> set (set_column a cols)"
      by (auto simp: set_set_column)
    also have "\<dots> \<subseteq> set (fold set_column ns (set_column a cols))"
      by (rule Cons.IH)
    finally show ?case by simp
  qed
  from assms show "set (columns df) \<subseteq> set (columns sd)"
    using sub [of "columns df" score_columns] by (auto simp: score_all_def split: if_splits)
  from assms show "''project_type'' \<in> set (columns df)"
    by (simp add: score_all_def split: if_splits)
qed

lemma detect_nth:
  assumes "i < length (rows df)"
  shows "set (flags (rows (detect t df) ! i)) = triggered t (columns df) (rows df ! i)"
  using tracks_detect [of t df] assms
  by (simp add: tracks_def list_all2_conv_all_nth)

text \<open>
  Claim C2, amended: a record whose project type contains "REDD+", in any letter case,
  gets a \<^verbatim>\<open>project_type_score\<close> of 30 from \<^verbatim>\<open>score_all\<close>; and a record whose project
  type contains "REDD", in any letter case, carries \<^verbatim>\<open>REDD_CONTROVERSY\<close> after
  \<^verbatim>\<open>detect\<close> has run on the scored frame.
\<close>

theorem C2_REDD_score_and_flag:
  assumes "score_all df ref = Inr sd" and "i < length (rows df)"
    and "project_type (rows df ! i) = Some s"
  shows "(str_contains (lower ''REDD+'') (lower s) \<longrightarrow> project_type_score_col (rows sd ! i) = 30)
       \<and> (str_contains (lower ''REDD'') (lower s)
            \<longrightarrow> ''REDD_CONTROVERSY'' \<in> set (flags (rows (detect t sd) ! i)))"
proof -
  from assms(1) have rs: "rows sd = map (score_row ref) (rows df)"
    by (rule rows_score_all)
  with assms(2) have nth: "rows sd ! i = score_row ref (rows df ! i)"
    by simp
  have pt: "project_type (rows sd ! i) = Some s"
    unfolding nth using assms(3) by (simp add: score_row_def Let_def)
  have sc: "project_type_score_col (rows sd ! i) = project_type_score (Some s)"
    unfolding nth using assms(3) by (simp add: score_row_def Let_def)
  from columns_score_all [OF assms(1)] have col: "''project_type'' \<in> set (columns sd)"
    by blast
  from assms(2) rs have len: "i < length (rows sd)"
    by simp
  have fl: "''REDD_CONTROVERSY'' \<in> set (flags (rows (detect t sd) ! i))"
    if "str_contains (lower ''REDD'') (lower s)"
    unfolding detect_nth [OF len] triggered_iff using that col pt
    by (simp add: contains_nocase_def)
  from sc fl show ?thesis
    by (simp add: project_type_score_REDD_plus)
qed

text \<open>
  Claim C2 as stated (every project type containing "REDD" scores 30) fails for the
  project type "REDD": it contains none of the high-risk names, whose REDD entry is
  "REDD+", nor a medium-risk name, and scores 85.
\<close>

theorem C2_REDD_without_plus_scores_85:
  "str_contains (lower ''REDD'') (lower ''REDD'')
   \<and> map_sum id (\<lambda>d. map project_type_score_col (rows d))
        (score_all \<lparr>columns = sample_columns,
                    rows = [sample_project\<lparr>project_type := Some ''REDD''\<rparr>]\<rparr> 0)
      = Inr [85]
   \<and> map_sum id (\<lambda>d. map project_type_score_col (rows d))
        (score_all \<lparr>columns = sample_columns,
                    rows = [sample_project\<lparr>project_type := Some ''REDD''\<rparr>]\<rparr> 0)
      \<noteq> Inr [30]"
proof -
  have "project_type_score_col (score_row 0 (sample_project\<lparr>project_type := Some ''REDD''\<rparr>))
          = project_type_score (Some ''REDD'')"
    by (simp add: score_row_def Let_def)
  then show ?thesis
    by (simp add: score_all_sample project_type_score_REDD lower_REDD)
qed

theorem C2_REDD_score_and_flag_witness:
  "score_all \<lparr>columns = sample_columns,
              rows = [sample_project\<lparr>project_type := Some ''REDD+''\<rparr>]\<rparr> 0
     = Inr \<lparr>columns = sample_columns @ score_columns,
            rows = map (score_row 0) [sample_project\<lparr>project_type := Some ''REDD+''\<rparr>]\<rparr>
   \<and> (0::nat) < length [sample_project\<lparr>project_type := Some ''REDD+''\<rparr>]
   \<and> project_type ([sample_project\<lparr>project_type := Some ''REDD+''\<rparr>] ! 0) = Some ''REDD+''
   \<and> str_contains (lower ''REDD+'') (lower ''REDD+'')
   \<and> str_contains (lower ''REDD'') (lower ''REDD+'')
   \<and> project_type_score_col
         (map (score_row 0) [sample_project\<lparr>project_type := Some ''REDD+''\<rparr>] ! 0) = 30
   \<and> ''REDD_CONTROVERSY''
       \<in> set (flags (rows (detect 0
             \<lparr>columns = sample_columns @ score_columns,
              rows = map (score_row 0) [sample_project\<lparr>project_type := Some ''REDD+''\<rparr>]\<rparr>) ! 0))"
proof -
  let ?df = "\<lparr>columns = sample_columns,
              rows = [sample_project\<lparr>project_type := Some ''REDD+''\<rparr>]\<rparr>"
  let ?sd = "\<lparr>columns = sample_columns @ score_columns,
            rows = map (score_row 0) [sample_project\<lparr>project_type := Some ''REDD+''\<rparr>]\<rparr>"
  have h1: "score_all ?df 0 = Inr ?sd"
    by (rule score_all_sample)
  have h2: "0 < length (rows ?df)"
    by simp
  have h3: "project_type (rows ?df ! 0) = Some ''REDD+''"
    by simp
  have p: "str_contains (lower ''REDD+'') (lower ''REDD+'')"
    by (simp add: lower_REDD)
  have q: "str_contains (lower ''REDD'') (lower ''REDD+'')"
    by (simp add: lower_REDD)
  from C2_REDD_score_and_flag [OF h1 h2 h3, of 0] p q
  have "project_type_score_col (rows ?sd ! 0) = 30"
    and "''REDD_CONTROVERSY'' \<in> set (flags (rows (detect 0 ?sd) ! 0))"
    by blast+
  with h1 p q show ?thesis
    by simp
qed

subsection \<open>Missing inputs\<close>

lemma rule_skipped:
  "''vintage_score'' \<notin> set (columns fd) \<Longrightarrow> flag_high_vintage fd = fd"
  "''total_retired'' \<notin> set (columns fd) \<or> ''total_issued'' \<notin> set (columns fd)
     \<Longrightarrow> flag_zero_retirements fd = fd"
  "''total_retired'' \<notin> set (columns fd) \<or> ''total_issued'' \<notin> set (columns fd)
     \<Longrightarrow> flag_low_retirement_ratio fd = fd"
  "''project_type'' \<notin> set (columns fd) \<Longrightarrow> flag_redd_controversy fd = fd"
  "''total_issued'' \<notin> set (columns fd) \<Longrightarrow> flag_massive_issuance fd = fd"
  "''additionality_score'' \<notin> set (columns fd) \<Longrightarrow> flag_registration_lag fd = fd"
  "''governance_score'' \<notin> set (columns fd) \<Longrightarrow> flag_weak_governance fd = fd"
  "''crediting_period_end'' \<notin> set (columns fd) \<Longrightarrow> flag_expired_crediting t fd = fd"
  "''transparency_score'' \<notin> set (columns fd) \<Longrightarrow> flag_incomplete_data fd = fd"
  by (auto simp add: flag_high_vintage_def flag_zero_retirements_def
      flag_low_retirement_ratio_def flag_redd_controversy_def flag_massive_issuance_def
      flag_registration_lag_def flag_weak_governance_def flag_expired_crediting_def
      flag_incomplete_data_def)

lemma governance_score_unknown:
  "map_of COUNTRY_GOVERNANCE_SCORE (strip c) = None \<Longrightarrow> governance_score (Some c) = 50"
  by (simp add: governance_score_def DEFAULT_GOVERNANCE_SCORE_def py_round_def rint_def)

lemma score_all_total:
  "''project_type'' \<in> set (columns df) \<Longrightarrow> ''country'' \<in> set (columns df)
   \<Longrightarrow> \<exists>sd. score_all df ref = Inr sd"
  by (simp add: score_all_def)


lemma score_row_cols:
  "vintage_score_col (score_row ref r) = vintage_score r ref"
  "retirement_ratio_score_col (score_row ref r) = retirement_ratio_score r"
  "project_type_score_col (score_row ref r) = project_type_score (project_type r)"
  "additionality_score_col (score_row ref r) = additionality_score r ref"
  "governance_score_col (score_row ref r) = governance_score (country r)"
  by (simp_all add: score_row_def Let_def)

lemma scoring_defaults:
  "registration_date r = None \<Longrightarrow> vintage_score r ref = 50"
  "total_issued r \<le> 0 \<Longrightarrow> retirement_ratio_score r = 50"
  "project_type_score None = 50"
  "registration_date r = None \<or> crediting_period_start r = None
     \<Longrightarrow> additionality_score r ref = 50"
  "governance_score None = 50"
proof -
  show "registration_date r = None \<Longrightarrow> vintage_score r ref = 50"
    by (simp add: vintage_score_def)
  show "total_issued r \<le> 0 \<Longrightarrow> retirement_ratio_score r = 50"
    by (simp add: retirement_ratio_score_def)
  show "project_type_score None = 50"
    by (simp add: project_type_score_def)
  show "registration_date r = None \<or> crediting_period_start r = None
     \<Longrightarrow> additionality_score r ref = 50"
    by (auto simp: additionality_score_def split: option.splits)
  show "governance_score None = 50"
    by (simp add: governance_score_def DEFAULT_GOVERNANCE_SCORE_def)
qed

text \<open>
  Claim C8 as stated (a missing scoring input never raises) fails where the input is
  missing from the whole batch: \<^verbatim>\<open>score_all\<close> indexes the \<^verbatim>\<open>project_type\<close> and the
  \<^verbatim>\<open>country\<close> column directly, and on a frame without one of them it raises
  \<^verbatim>\<open>KeyError\<close> and scores nothing.
\<close>

theorem C8_missing_column_raises:
  "score_all no_project_type_frame 0 = Inl (KeyError ''project_type'')
   \<and> score_all no_country_frame 0 = Inl (KeyError ''country'')"
  by (simp add: score_all_def no_project_type_frame_def no_country_frame_def)

text \<open>
  Claim C8, amended: on a batch whose schema has the \<^verbatim>\<open>project_type\<close> and \<^verbatim>\<open>country\<close>
  columns, \<^verbatim>\<open>score_all\<close> never raises, and a missing or unknown input of a record
  gives the neutral default in that record's scores: a null registration date gives
  \<^verbatim>\<open>vintage_score\<close> 50, an issuance of 0 or less gives \<^verbatim>\<open>retirement_ratio_score\<close> 50, a
  null project type gives \<^verbatim>\<open>project_type_score\<close> 50, a null registration date or
  crediting-period start gives \<^verbatim>\<open>additionality_score\<close> 50, and a null country or one
  that the governance table does not list gives \<^verbatim>\<open>governance_score\<close> 50. In the
  detector, a rule whose column is not in the schema returns the frame as it is.
\<close>

theorem C8_neutral_defaults:
  fixes df :: "project dataframe" and fd :: "'b flag_frame"
  assumes "''project_type'' \<in> set (columns df)" and "''country'' \<in> set (columns df)"
  shows "(\<exists>sd. score_all df ref = Inr sd \<and> length (rows sd) = length (rows df)
          \<and> (\<forall>i<length (rows df).
                (registration_date (rows df ! i) = None
                   \<longrightarrow> vintage_score_col (rows sd ! i) = 50)
              \<and> (total_issued (rows df ! i) \<le> 0
                   \<longrightarrow> retirement_ratio_score_col (rows sd ! i) = 50)
              \<and> (project_type (rows df ! i) = None
                   \<longrightarrow> project_type_score_col (rows sd ! i) = 50)
              \<and> (registration_date (rows df ! i) = None
                     \<or> crediting_period_start (rows df ! i) = None
                   \<longrightarrow> additionality_score_col (rows sd ! i) = 50)
              \<and> (country (rows df ! i) = None
                   \<longrightarrow> governance_score_col (rows sd ! i) = 50)
              \<and> (\<forall>c. country (rows df ! i) = Some c
                       \<and> map_of COUNTRY_GOVERNANCE_SCORE (strip c) = None
                   \<longrightarrow> governance_score_col (rows sd ! i) = 50)))
       \<and> (''vintage_score'' \<notin> set (columns fd) \<longrightarrow> flag_high_vintage fd = fd)
       \<and> (''total_retired'' \<notin> set (columns fd) \<or> ''total_issued'' \<notin> set (columns fd)
            \<longrightarrow> flag_zero_retirements fd = fd \<and> flag_low_retirement_ratio fd = fd)
       \<and> (''project_type'' \<notin> set (columns fd) \<longrightarrow> flag_redd_controversy fd = fd)
       \<and> (''total_issued'' \<notin> set (columns fd) \<longrightarrow> flag_massive_issuance fd = fd)
       \<and> (''additionality_score'' \<notin> set (columns fd) \<longrightarrow> flag_registration_lag fd = fd)
       \<and> (''governance_score'' \<notin> set (columns fd) \<longrightarrow> flag_weak_governance fd = fd)
       \<and> (''crediting_period_end'' \<notin> set (columns fd) \<longrightarrow> flag_expired_crediting t fd = fd)
       \<and> (''transparency_score'' \<notin> set (columns fd) \<longrightarrow> flag_incomplete_data fd = fd)"
proof -
  from score_all_total [OF assms] obtain sd where sd: "score_all df ref = Inr sd" ..
  then have rs: "rows sd = map (score_row ref) (rows df)"
    by (rule rows_score_all)
  have len: "length (rows sd) = length (rows df)"
    by (simp add: rs)
  have row: "(registration_date (rows df ! i) = None
                   \<longrightarrow> vintage_score_col (rows sd ! i) = 50)
              \<and> (total_issued (rows df ! i) \<le> 0
                   \<longrightarrow> retirement_ratio_score_col (rows sd ! i) = 50)
              \<and> (project_type (rows df ! i) = None
                   \<longrightarrow> project_type_score_col (rows sd ! i) = 50)
              \<and> (registration_date (rows df ! i) = None
                     \<or> crediting_period_start (rows df ! i) = None
                   \<longrightarrow> additionality_score_col (rows sd ! i) = 50)
              \<and> (country (rows df ! i) = None
                   \<longrightarrow> governance_score_col (rows sd ! i) = 50)
              \<and> (\<forall>c. country (rows df ! i) = Some c
                       \<and> map_of COUNTRY_GOVERNANCE_SCORE (strip c) = None
                   \<longrightarrow> governance_score_col (rows sd ! i) = 50)"
    if "i < length (rows df)" for i
  proof -
    from that have nth: "rows sd ! i = score_row ref (rows df ! i)"
      by (simp add: rs)
    show ?thesis
      unfolding nth score_row_cols
    proof (intro conjI impI allI)
      assume "registration_date (rows df ! i) = None"
      then show "vintage_score (rows df ! i) ref = 50"
        by (rule scoring_defaults(1))
    next
      assume "total_issued (rows df ! i) \<le> 0"
      then show "retirement_ratio_score (rows df ! i) = 50"
        by (rule scoring_defaults(2))
    next
      assume "project_type (rows df ! i) = None"
      then show "project_type_score (project_type (rows df ! i)) = 50"
        by (simp only: scoring_defaults(3))
    next
      assume "registration_date (rows df ! i) = None
                \<or> crediting_period_start (rows df ! i) = None"
      then show "additionality_score (rows df ! i) ref = 50"
        by (rule scoring_defaults(4))
    next
      assume "country (rows df ! i) = None"
      then show "governance_score (country (rows df ! i)) = 50"
        by (simp only: scoring_defaults(5))
    next
      fix c
      assume "country (rows df ! i) = Some c
                \<and> map_of COUNTRY_GOVERNANCE_SCORE (strip c) = None"
      then show "governance_score (country (rows df ! i)) = 50"
        by (simp add: governance_score_unknown)
    qed
  qed
  have scorer: "\<exists>sd. score_all df ref = Inr sd \<and> length (rows sd) = length (rows df)
          \<and> (\<forall>i<length (rows df).
                (registration_date (rows df ! i) = None
                   \<longrightarrow> vintage_score_col (rows sd ! i) = 50)
              \<and> (total_issued (rows df ! i) \<le> 0
                   \<longrightarrow> retirement_ratio_score_col (rows sd ! i) = 50)
              \<and> (project_type (rows df ! i) = None
                   \<longrightarrow> project_type_score_col (rows sd ! i) = 50)
              \<and> (registration_date (rows df ! i) = None
                     \<or> crediting_period_start (rows df ! i) = None
                   \<longrightarrow> additionality_score_col (rows sd ! i) = 50)
              \<and> (country (rows df ! i) = None
                   \<longrightarrow> governance_score_col (rows sd ! i) = 50)
              \<and> (\<forall>c. country (rows df ! i) = Some c
                       \<and> map_of COUNTRY_GOVERNANCE_SCORE (strip c) = None
                   \<longrightarrow> governance_score_col (rows sd ! i) = 50))"
    using sd len row by blast
  have detector: "(''vintage_score'' \<notin> set (columns fd) \<longrightarrow> flag_high_vintage fd = fd)
       \<and> (''total_retired'' \<notin> set (columns fd) \<or> ''total_issued'' \<notin> set (columns fd)
            \<longrightarrow> flag_zero_retirements fd = fd \<and> flag_low_retirement_ratio fd = fd)
       \<and> (''project_type'' \<notin> set (columns fd) \<longrightarrow> flag_redd_controversy fd = fd)
       \<and> (''total_issued'' \<notin> set (columns fd) \<longrightarrow> flag_massive_issuance fd = fd)
       \<and> (''additionality_score'' \<notin> set (columns fd) \<longrightarrow> flag_registration_lag fd = fd)
       \<and> (''governance_score'' \<notin> set (columns fd) \<longrightarrow> flag_weak_governance fd = fd)
       \<and> (''crediting_period_end'' \<notin> set (columns fd) \<longrightarrow> flag_expired_crediting t fd = fd)
       \<and> (''transparency_score'' \<notin> set (columns fd) \<longrightarrow> flag_incomplete_data fd = fd)"
    by (intro conjI impI) (simp_all add: rule_skipped)
  from scorer detector show ?thesis
    by (rule conjI)
qed

theorem C8_neutral_defaults_witness:
  "''project_type'' \<in> set (columns missing_inputs_frame)
   \<and> ''country'' \<in> set (columns missing_inputs_frame)
   \<and> registration_date (rows missing_inputs_frame ! 0) = None
   \<and> total_issued (rows missing_inputs_frame ! 0) \<le> 0
   \<and> project_type (rows missing_inputs_frame ! 0) = None
   \<and> country (rows missing_inputs_frame ! 0) = None
   \<and> country (rows missing_inputs_frame ! 1) = Some ''Atlantis''
   \<and> map_of COUNTRY_GOVERNANCE_SCORE (strip ''Atlantis'') = None
   \<and> (\<exists>sd. score_all missing_inputs_frame 0 = Inr sd
        \<and> length (rows sd) = 2
        \<and> vintage_score_col (rows sd ! 0) = 50
        \<and> retirement_ratio_score_col (rows sd ! 0) = 50
        \<and> project_type_score_col (rows sd ! 0) = 50
        \<and> additionality_score_col (rows sd ! 0) = 50
        \<and> governance_score_col (rows sd ! 0) = 50
        \<and> governance_score_col (rows sd ! 1) = 50)
   \<and> ''vintage_score'' \<notin> set (columns bare_frame)
   \<and> flag_high_vintage bare_frame = bare_frame
   \<and> ''total_retired'' \<notin> set (columns bare_frame)
   \<and> flag_zero_retirements bare_frame = bare_frame
   \<and> flag_low_retirement_ratio bare_frame = bare_frame
   \<and> ''project_type'' \<notin> set (columns bare_frame)
   \<and> flag_redd_controversy bare_frame = bare_frame
   \<and> ''total_issued'' \<notin> set (columns bare_frame)
   \<and> flag_massive_issuance bare_frame = bare_frame
   \<and> ''additionality_score'' \<notin> set (columns bare_frame)
   \<and> flag_registration_lag bare_frame = bare_frame
   \<and> ''governance_score'' \<notin> set (columns bare_frame)
   \<and> flag_weak_governance bare_frame = bare_frame
   \<and> ''crediting_period_end'' \<notin> set (columns bare_frame)
   \<and> flag_expired_crediting 0 bare_frame = bare_frame
   \<and> ''transparency_score'' \<notin> set (columns bare_frame)
   \<and> flag_incomplete_data bare_frame = bare_frame"
proof -
  let ?df = missing_inputs_frame
  have h1: "''project_type'' \<in> set (columns ?df)" and h2: "''country'' \<in> set (columns ?df)"
    by (simp_all add: missing_inputs_frame_def sample_columns_def)
  have r0: "registration_date (rows ?df ! 0) = None" "total_issued (rows ?df ! 0) \<le> 0"
    "project_type (rows ?df ! 0) = None" "country (rows ?df ! 0) = None"
    "country (rows ?df ! 1) = Some ''Atlantis''"
    by (simp_all add: missing_inputs_frame_def sample_project_def)
  have l: "length (rows ?df) = 2"
    by (simp add: missing_inputs_frame_def)
  have a: "map_of COUNTRY_GOVERNANCE_SCORE (strip ''Atlantis'') = None"
    by (simp add: COUNTRY_GOVERNANCE_SCORE_def strip_def isspace_def)
  have h5: "''vintage_score'' \<notin> set (columns bare_frame)"
    "''total_retired'' \<notin> set (columns bare_frame)"
    "''project_type'' \<notin> set (columns bare_frame)"
    "''total_issued'' \<notin> set (columns bare_frame)"
    "''additionality_score'' \<notin> set (columns bare_frame)"
    "''governance_score'' \<notin> set (columns bare_frame)"
    "''crediting_period_end'' \<notin> set (columns bare_frame)"
    "''transparency_score'' \<notin> set (columns bare_frame)"
    by (simp_all add: bare_frame_def)
  note c8 = C8_neutral_defaults [OF h1 h2, of 0 bare_frame 0, THEN conjunct1]
  from c8 obtain sd where sd: "score_all ?df 0 = Inr sd"
    and len: "length (rows sd) = length (rows ?df)"
    and all: "\<forall>i<length (rows ?df).
                (registration_date (rows ?df ! i) = None
                   \<longrightarrow> vintage_score_col (rows sd ! i) = 50)
              \<and> (total_issued (rows ?df ! i) \<le> 0
                   \<longrightarrow> retirement_ratio_score_col (rows sd ! i) = 50)
              \<and> (project_type (rows ?df ! i) = None
                   \<longrightarrow> project_type_score_col (rows sd ! i) = 50)
              \<and> (registration_date (rows ?df ! i) = None
                     \<or> crediting_period_start (rows ?df ! i) = None
                   \<longrightarrow> additionality_score_col (rows sd ! i) = 50)
              \<and> (country (rows ?df ! i) = None
                   \<longrightarrow> governance_score_col (rows sd ! i) = 50)
              \<and> (\<forall>c. country (rows ?df ! i) = Some c
                       \<and> map_of COUNTRY_GOVERNANCE_SCORE (strip c) = None
                   \<longrightarrow> governance_score_col (rows sd ! i) = 50)"
    by blast
  from all l have i0: "vintage_score_col (rows sd ! 0) = 50"
      "retirement_ratio_score_col (rows sd ! 0) = 50"
      "project_type_score_col (rows sd ! 0) = 50"
      "additionality_score_col (rows sd ! 0) = 50"
      "governance_score_col (rows sd ! 0) = 50"
    using r0(1-4) by simp_all
  from all l have "\<forall>c. country (rows ?df ! 1) = Some c
                       \<and> map_of COUNTRY_GOVERNANCE_SCORE (strip c) = None
                   \<longrightarrow> governance_score_col (rows sd ! 1) = 50"
    by simp
  with r0(5) a have i1: "governance_score_col (rows sd ! 1) = 50"
    by simp
  have ex: "\<exists>sd. score_all ?df 0 = Inr sd
        \<and> length (rows sd) = 2
        \<and> vintage_score_col (rows sd ! 0) = 50
        \<and> retirement_ratio_score_col (rows sd ! 0) = 50
        \<and> project_type_score_col (rows sd ! 0) = 50
        \<and> additionality_score_col (rows sd ! 0) = 50
        \<and> governance_score_col (rows sd ! 0) = 50
        \<and> governance_score_col (rows sd ! 1) = 50"
    using sd len l i0 i1 by (intro exI [of _ sd]) simp
  from h5 have rules: "flag_high_vintage bare_frame = bare_frame"
    "flag_zero_retirements bare_frame = bare_frame"
    "flag_low_retirement_ratio bare_frame = bare_frame"
    "flag_redd_controversy bare_frame = bare_frame"
    "flag_massive_issuance bare_frame = bare_frame"
    "flag_registration_lag bare_frame = bare_frame"
    "flag_weak_governance bare_frame = bare_frame"
    "flag_expired_crediting 0 bare_frame = bare_frame"
    "flag_incomplete_data bare_frame = bare_frame"
    by (simp_all add: rule_skipped)
  from h1 h2 r0 a ex h5 rules show ?thesis
    by (intro conjI)
qed

end
